theory Spec2Isabelle
  imports Complex_Main "HOL-Library.Product_Lexorder"
begin

section \<open>Data model\<close>

text \<open>
  The store monitoring service of \<^verbatim>\<open>main.py\<close> (and its twin \<^verbatim>\<open>main_simple.py\<close>,
  whose \<^verbatim>\<open>is_store_open\<close>, \<^verbatim>\<open>calculate_uptime_downtime\<close> and \<^verbatim>\<open>generate_report\<close>
  are the same text).

  A naive \<^verbatim>\<open>datetime\<close> is the number of microseconds since 0001-01-01 00:00:00, an \<open>int\<close>;
  a \<^verbatim>\<open>timedelta\<close> is a number of microseconds; a \<^verbatim>\<open>date\<close> is the number of days since
  0001-01-01 (Python's \<^verbatim>\<open>toordinal() - 1\<close>). Day 0 is a Monday, so \<^verbatim>\<open>weekday()\<close> is the
  day number modulo 7. The ends of Python's representable range (years 1 and 9999), where
  datetime arithmetic raises OverflowError, are outside the model: instants are unbounded.
\<close>

type_synonym datetime = int
type_synonym date = int

definition MICROS_PER_MINUTE :: int where
  "MICROS_PER_MINUTE = 60000000"

definition MICROS_PER_DAY :: int where
  "MICROS_PER_DAY = 86400000000"

definition date_of :: "datetime \<Rightarrow> date" where
  "date_of dt = dt div MICROS_PER_DAY"

definition weekday :: "date \<Rightarrow> int" where
  "weekday d = d mod 7"

text \<open>A \<^verbatim>\<open>datetime.time\<close>; Python compares two of them as the tuples of their fields.\<close>

record time =
  hour :: int
  minute :: int
  second :: int
  microsecond :: int

definition time_tuple :: "time \<Rightarrow> int \<times> int \<times> int \<times> int" where
  "time_tuple t = (hour t, minute t, second t, microsecond t)"

definition time_le :: "time \<Rightarrow> time \<Rightarrow> bool" where
  "time_le a b = (time_tuple a \<le> time_tuple b)"

definition time_gt :: "time \<Rightarrow> time \<Rightarrow> bool" where
  "time_gt a b = (time_tuple a > time_tuple b)"

definition time_of :: "datetime \<Rightarrow> time" where
  "time_of dt =
     (let us = dt mod MICROS_PER_DAY in
      \<lparr> hour = us div 3600000000,
        minute = (us div 60000000) mod 60,
        second = (us div 1000000) mod 60,
        microsecond = us mod 1000000 \<rparr>)"

text \<open>The instant at \<open>h:m\<close> o'clock on day \<open>d\<close>, for writing examples.\<close>

definition at_hm :: "date \<Rightarrow> int \<Rightarrow> int \<Rightarrow> datetime" where
  "at_hm d h m = d * MICROS_PER_DAY + (h * 60 + m) * MICROS_PER_MINUTE"

text \<open>The exceptions the code can meet; every handler of the code catches \<^verbatim>\<open>Exception\<close>.\<close>

datatype py_exc =
  OperationalError | UnknownTimeZoneError | ValueError | TypeError

text \<open>The three tables the engine reads (the primary key column is left out).\<close>

record StoreStatus =
  status_store_id :: string
  timestamp_utc :: datetime
  status :: string

record StoreHours =
  hours_store_id :: string
  day_of_week :: int
  start_time_local :: string
  end_time_local :: string

record StoreTimezone =
  tz_store_id :: string
  timezone_str :: string

text \<open>
  The database session. A table is its rows in storage order, or \<open>None\<close> when the
  provider is unavailable and every query on the table raises.
\<close>

record db =
  store_status :: "StoreStatus list option"
  store_hours :: "StoreHours list option"
  store_timezone :: "StoreTimezone list option"

text \<open>
  The time zone database behind \<^verbatim>\<open>pytz.timezone\<close>, which is not part of the repository:
  a parameter. A known zone name gives the zone's UTC offset in microseconds at each UTC
  instant; an unknown name gives \<open>None\<close> (pytz raises UnknownTimeZoneError).
\<close>

type_synonym tzdb = "string \<Rightarrow> (datetime \<Rightarrow> int) option"

section \<open>Parsing a schedule time\<close>

text \<open>
  \<^verbatim>\<open>datetime.strptime(s, "%H:%M").time()\<close> of the standard library, on ASCII text. The
  format is the regular expression \<^verbatim>\<open>(2[0-3]|[0-1]\d|\d):([0-5]\d|\d)\<close>, which must match
  a prefix of the string, and the match must end where the string ends; anything else raises
  ValueError.
\<close>

definition digit :: "char \<Rightarrow> int option" where
  "digit c = (let n = (of_char c :: int) in if 48 \<le> n \<and> n \<le> 57 then Some (n - 48) else None)"

fun two_or_one_digit :: "int \<Rightarrow> string \<Rightarrow> (int \<times> string) option" where
  "two_or_one_digit bound [] = None"
| "two_or_one_digit bound [a] = (case digit a of None \<Rightarrow> None | Some x \<Rightarrow> Some (x, []))"
| "two_or_one_digit bound (a # b # rest) =
     (case digit a of
        None \<Rightarrow> None
      | Some x \<Rightarrow>
          (case digit b of
             None \<Rightarrow> Some (x, b # rest)
           | Some y \<Rightarrow> if 10 * x + y \<le> bound then Some (10 * x + y, rest) else Some (x, b # rest)))"

definition strptime_HM :: "string \<Rightarrow> py_exc + time" where
  "strptime_HM s =
     (case two_or_one_digit 23 s of
        None \<Rightarrow> Inl ValueError
      | Some (h, rest) \<Rightarrow>
          (case rest of
             [] \<Rightarrow> Inl ValueError
           | c # rest' \<Rightarrow>
               if c \<noteq> CHR '':'' then Inl ValueError
               else (case two_or_one_digit 59 rest' of
                       None \<Rightarrow> Inl ValueError
                     | Some (m, tail) \<Rightarrow>
                         if tail = [] then Inr \<lparr> hour = h, minute = m, second = 0, microsecond = 0 \<rparr>
                         else Inl ValueError)))"

section \<open>The business hours oracle\<close>

text \<open>\<^verbatim>\<open>db.query(T).filter(...).first()\<close>: the first matching row, or an exception.\<close>

definition query_first :: "'r list option \<Rightarrow> ('r \<Rightarrow> bool) \<Rightarrow> py_exc + 'r option" where
  "query_first table p = (case table of None \<Rightarrow> Inl OperationalError | Some rows \<Rightarrow> Inr (find p rows))"

definition hours_record_for :: "db \<Rightarrow> string \<Rightarrow> int \<Rightarrow> py_exc + StoreHours option" where
  "hours_record_for d store_id dow =
     query_first (store_hours d) (\<lambda>r. hours_store_id r = store_id \<and> day_of_week r = dow)"

text \<open>The body of the \<^verbatim>\<open>try\<close> block of \<^verbatim>\<open>is_store_open\<close>.\<close>

definition is_store_open_try :: "tzdb \<Rightarrow> db \<Rightarrow> string \<Rightarrow> datetime \<Rightarrow> py_exc + bool" where
  "is_store_open_try tz d store_id ts =
     (case query_first (store_timezone d) (\<lambda>r. tz_store_id r = store_id) of
        Inl e \<Rightarrow> Inl e
      | Inr timezone_record \<Rightarrow>
        let tz_name = (case timezone_record of
                         Some r \<Rightarrow> timezone_str r
                       | None \<Rightarrow> ''America/Chicago'') in
        (case tz tz_name of
           None \<Rightarrow> Inl UnknownTimeZoneError
         | Some local_tz \<Rightarrow>
           let local_time = ts + local_tz ts in
           (case hours_record_for d store_id (weekday (date_of local_time)) of
              Inl e \<Rightarrow> Inl e
            | Inr None \<Rightarrow> Inr True
            | Inr (Some hours_record) \<Rightarrow>
              (case strptime_HM (start_time_local hours_record) of
                 Inl e \<Rightarrow> Inl e
               | Inr start_time \<Rightarrow>
                 (case strptime_HM (end_time_local hours_record) of
                    Inl e \<Rightarrow> Inl e
                  | Inr end_time \<Rightarrow>
                    let current_time = time_of local_time in
                    if time_gt start_time end_time
                    then Inr (time_le start_time current_time \<or> time_le current_time end_time)
                    else Inr (time_le start_time current_time \<and> time_le current_time end_time))))))"

text \<open>\<^verbatim>\<open>except Exception: return True\<close>.\<close>

definition is_store_open :: "tzdb \<Rightarrow> db \<Rightarrow> string \<Rightarrow> datetime \<Rightarrow> bool" where
  "is_store_open tz d store_id ts =
     (case is_store_open_try tz d store_id ts of Inl e \<Rightarrow> True | Inr b \<Rightarrow> b)"

section \<open>Uptime and downtime of one store in one window\<close>

text \<open>
  \<^verbatim>\<open>db.query(StoreStatus).filter(store_id == ...).order_by(timestamp_utc).all()\<close>. Rows with
  equal timestamps stay in storage order.
\<close>

definition status_records :: "db \<Rightarrow> string \<Rightarrow> py_exc + StoreStatus list" where
  "status_records d store_id =
     (case store_status d of
        None \<Rightarrow> Inl OperationalError
      | Some rows \<Rightarrow> Inr (sort_key timestamp_utc (filter (\<lambda>r. status_store_id r = store_id) rows)))"

definition business_hours_records :: "tzdb \<Rightarrow> db \<Rightarrow> string \<Rightarrow> StoreStatus list \<Rightarrow> StoreStatus list" where
  "business_hours_records tz d store_id recs =
     filter (\<lambda>record. is_store_open tz d store_id (timestamp_utc record)) recs"

text \<open>The \<^verbatim>\<open>timedelta\<close> of a period name; \<open>None\<close> for any other name.\<close>

definition period_delta :: "string \<Rightarrow> int option" where
  "period_delta time_period =
     (if time_period = ''hour'' then Some (60 * MICROS_PER_MINUTE)
      else if time_period = ''day'' then Some MICROS_PER_DAY
      else if time_period = ''week'' then Some (7 * MICROS_PER_DAY)
      else None)"

definition period_records :: "StoreStatus list \<Rightarrow> datetime \<Rightarrow> StoreStatus list" where
  "period_records recs start_time = filter (\<lambda>r. timestamp_utc r \<ge> start_time) recs"

text \<open>The business minutes of one date with a schedule entry.\<close>

definition day_minutes :: "time \<Rightarrow> time \<Rightarrow> int" where
  "day_minutes start_time_l end_time_l =
     (if time_gt start_time_l end_time_l
      then 24 * 60 - hour start_time_l * 60 - minute start_time_l
             + hour end_time_l * 60 + minute end_time_l
      else hour end_time_l * 60 + minute end_time_l
             - hour start_time_l * 60 - minute start_time_l)"

text \<open>The \<^verbatim>\<open>while current_date <= end_date\<close> loop over the dates of the window.\<close>

function total_business_minutes_loop ::
  "db \<Rightarrow> string \<Rightarrow> date \<Rightarrow> date \<Rightarrow> int \<Rightarrow> py_exc + int" where
  "total_business_minutes_loop d store_id current_date end_date total_business_minutes =
     (if current_date \<le> end_date then
        (case hours_record_for d store_id (weekday current_date) of
           Inl e \<Rightarrow> Inl e
         | Inr None \<Rightarrow>
             total_business_minutes_loop d store_id (current_date + 1) end_date (total_business_minutes + 24 * 60)
         | Inr (Some hours_record) \<Rightarrow>
             (case strptime_HM (start_time_local hours_record) of
                Inl e \<Rightarrow> Inl e
              | Inr start_time_l \<Rightarrow>
                  (case strptime_HM (end_time_local hours_record) of
                     Inl e \<Rightarrow> Inl e
                   | Inr end_time_l \<Rightarrow>
                       total_business_minutes_loop d store_id (current_date + 1) end_date
                         (total_business_minutes + day_minutes start_time_l end_time_l))))
      else Inr total_business_minutes)"
  by pat_completeness auto
termination
  by (relation "measure (\<lambda>(d, store_id, current_date, end_date, total_business_minutes). nat (end_date + 1 - current_date))")
     auto

declare total_business_minutes_loop.simps [simp del]

text \<open>
  The \<^verbatim>\<open>for i, record in enumerate(period_records)\<close> loop. Python's float arithmetic is
  modelled by exact rational arithmetic.
\<close>

definition next_time :: "StoreStatus list \<Rightarrow> datetime \<Rightarrow> nat \<Rightarrow> datetime" where
  "next_time recs current_time i =
     (if i + 1 < length recs then timestamp_utc (recs ! (i + 1)) else current_time)"

definition time_diff :: "StoreStatus list \<Rightarrow> datetime \<Rightarrow> nat \<Rightarrow> rat" where
  "time_diff recs current_time i =
     of_int (next_time recs current_time i - timestamp_utc (recs ! i)) / 1000000 / 60"

definition uptime_minutes_loop :: "StoreStatus list \<Rightarrow> datetime \<Rightarrow> rat" where
  "uptime_minutes_loop recs current_time =
     foldl (\<lambda>uptime_minutes i.
              if status (recs ! i) = ''active''
              then uptime_minutes + time_diff recs current_time i
              else uptime_minutes)
       0 [0..<length recs]"

text \<open>
  The body of the \<^verbatim>\<open>try\<close> block of \<^verbatim>\<open>calculate_uptime_downtime\<close>. \<open>MAX_TIMESTAMP\<close> is the
  module's global of that name: \<open>None\<close> until a dataset has been imported, and then
  \<^verbatim>\<open>None - timedelta\<close> raises TypeError.
\<close>

definition calculate_uptime_downtime_try ::
  "tzdb \<Rightarrow> db \<Rightarrow> datetime option \<Rightarrow> string \<Rightarrow> string \<Rightarrow> py_exc + rat \<times> rat" where
  "calculate_uptime_downtime_try tz d MAX_TIMESTAMP store_id time_period =
     (case status_records d store_id of
        Inl e \<Rightarrow> Inl e
      | Inr recs \<Rightarrow>
        if recs = [] then Inr (0, 0)
        else
          let bh_records = business_hours_records tz d store_id recs in
          if bh_records = [] then Inr (0, 0)
          else
            (case period_delta time_period of
               None \<Rightarrow> Inr (0, 0)
             | Some delta \<Rightarrow>
                 (case MAX_TIMESTAMP of
                    None \<Rightarrow> Inl TypeError
                  | Some current_time \<Rightarrow>
                      let start_time = current_time - delta;
                          p_records = period_records bh_records start_time in
                      if p_records = [] then Inr (0, 0)
                      else
                        (case total_business_minutes_loop d store_id
                                (date_of start_time) (date_of current_time) 0 of
                           Inl e \<Rightarrow> Inl e
                         | Inr total_business_minutes \<Rightarrow>
                             let uptime_minutes = uptime_minutes_loop p_records current_time;
                                 downtime_minutes = of_int total_business_minutes - uptime_minutes in
                             if time_period = ''hour''
                             then Inr (uptime_minutes, downtime_minutes)
                             else Inr (uptime_minutes / 60, downtime_minutes / 60)))))"

text \<open>\<^verbatim>\<open>except Exception: return 0, 0\<close>.\<close>

definition calculate_uptime_downtime ::
  "tzdb \<Rightarrow> db \<Rightarrow> datetime option \<Rightarrow> string \<Rightarrow> string \<Rightarrow> rat \<times> rat" where
  "calculate_uptime_downtime tz d MAX_TIMESTAMP store_id time_period =
     (case calculate_uptime_downtime_try tz d MAX_TIMESTAMP store_id time_period of
        Inl e \<Rightarrow> (0, 0)
      | Inr r \<Rightarrow> r)"

section \<open>The report\<close>

text \<open>
  Python's \<^verbatim>\<open>round(x, 2)\<close> on exact values: the nearest multiple of 1/100, a tie going to the
  even one.
\<close>

definition round2 :: "rat \<Rightarrow> rat" where
  "round2 x =
     (let y = x * 100; f = \<lfloor>y\<rfloor>; r = y - of_int f in
      of_int (if r < 1 / 2 then f
              else if r > 1 / 2 then f + 1
              else if even f then f else f + 1) / 100)"

record report_row =
  store_id :: string
  uptime_last_hour :: rat
  uptime_last_day :: rat
  uptime_last_week :: rat
  downtime_last_hour :: rat
  downtime_last_day :: rat
  downtime_last_week :: rat

text \<open>The body of the \<^verbatim>\<open>for store_id in store_ids\<close> loop of \<^verbatim>\<open>generate_report\<close>.\<close>

definition report_data_row :: "tzdb \<Rightarrow> db \<Rightarrow> datetime option \<Rightarrow> string \<Rightarrow> report_row" where
  "report_data_row tz d MAX_TIMESTAMP sid =
     (let (uptime_hour, downtime_hour) = calculate_uptime_downtime tz d MAX_TIMESTAMP sid ''hour'';
          (uptime_day, downtime_day) = calculate_uptime_downtime tz d MAX_TIMESTAMP sid ''day'';
          (uptime_week, downtime_week) = calculate_uptime_downtime tz d MAX_TIMESTAMP sid ''week''
      in \<lparr> store_id = sid,
           uptime_last_hour = round2 uptime_hour,
           uptime_last_day = round2 uptime_day,
           uptime_last_week = round2 uptime_week,
           downtime_last_hour = round2 downtime_hour,
           downtime_last_day = round2 downtime_day,
           downtime_last_week = round2 downtime_week \<rparr>)"

text \<open>
  \<^verbatim>\<open>generate_report\<close>, as far as the engine goes: the rows it hands to the CSV writer when
  the report is marked Complete, or Failed when an exception reaches its handler. The store
  ids are the distinct ids of the status table. Writing the file and the \<^verbatim>\<open>reports\<close> table
  are outside the model.
\<close>

datatype report = Complete "report_row list" | Failed

definition generate_report :: "tzdb \<Rightarrow> db \<Rightarrow> datetime option \<Rightarrow> report" where
  "generate_report tz d MAX_TIMESTAMP =
     (case store_status d of
        None \<Rightarrow> Failed
      | Some rows \<Rightarrow>
          Complete (map (report_data_row tz d MAX_TIMESTAMP) (remdups (map status_store_id rows))))"

text \<open>
  The reference instant that \<^verbatim>\<open>import_csv_data\<close> stores in \<open>MAX_TIMESTAMP\<close>: the greatest
  timestamp of the imported status rows (the running maximum of \<^verbatim>\<open>main_simple.py\<close>; \<^verbatim>\<open>main.py\<close>
  takes the \<^verbatim>\<open>max()\<close> of the column), and nothing when there are no rows.
\<close>

definition max_timestamp :: "StoreStatus list \<Rightarrow> datetime option" where
  "max_timestamp rows =
     foldl (\<lambda>m r. case m of
                     None \<Rightarrow> Some (timestamp_utc r)
                   | Some t \<Rightarrow> if timestamp_utc r > t then Some (timestamp_utc r) else Some t)
       None rows"

section \<open>The statements of the specification\<close>

text \<open>
  The per-day budget in the specification's words: 1440 minutes for a date without a
  schedule entry; for an entry from \<open>start\<close> to \<open>end\<close>, the minutes from start to end when
  \<open>start \<le> end\<close>, and the minutes to midnight plus the minutes after it when \<open>start > end\<close>.
  An entry whose strings do not parse has no budget.
\<close>

definition spec_day_budget :: "StoreHours option \<Rightarrow> int option" where
  "spec_day_budget entry =
     (case entry of
        None \<Rightarrow> Some 1440
      | Some h \<Rightarrow>
          (case strptime_HM (start_time_local h) of
             Inl e \<Rightarrow> None
           | Inr s \<Rightarrow>
               (case strptime_HM (end_time_local h) of
                  Inl e \<Rightarrow> None
                | Inr e \<Rightarrow>
                    Some (if time_le s e
                          then (hour e * 60 + minute e) - (hour s * 60 + minute s)
                          else (1440 - hour s * 60 - minute s) + (hour e * 60 + minute e)))))"

text \<open>The budget of a calendar date: that of the schedule entry of its weekday.\<close>

definition date_budget :: "db \<Rightarrow> string \<Rightarrow> date \<Rightarrow> int option" where
  "date_budget d sid x =
     (case hours_record_for d sid (weekday x) of
        Inl e \<Rightarrow> None
      | Inr entry \<Rightarrow> spec_day_budget entry)"

text \<open>
  The number of minutes in the unit of a period's result: the hour window is reported in
  minutes, every other window in hours.
\<close>

definition minutes_per_unit :: "string \<Rightarrow> rat" where
  "minutes_per_unit time_period = (if time_period = ''hour'' then 1 else 60)"

text \<open>Python's \<^verbatim>\<open>time(h, m)\<close>.\<close>

definition time_hm :: "int \<Rightarrow> int \<Rightarrow> time" where
  "time_hm h m = \<lparr> hour = h, minute = m, second = 0, microsecond = 0 \<rparr>"

section \<open>Scenarios\<close>

text \<open>A time zone database that knows UTC, and Chicago at a fixed six hours behind it.\<close>

definition example_tzdb :: tzdb where
  "example_tzdb name =
     (if name = ''UTC'' then Some (\<lambda>t. 0)
      else if name = ''America/Chicago'' then Some (\<lambda>t. - 6 * 60 * MICROS_PER_MINUTE)
      else None)"

text \<open>2023-01-23, a Monday.\<close>

definition monday :: date where
  "monday = 738542"

text \<open>
  The end-to-end scenario: store S in zone UTC, open on Mondays from 09:00 to 17:00, polled
  on the Monday \<open>day\<close> at 09:00 (active), 12:00 (active) and 16:00 (inactive).
\<close>

definition scenario_db :: "date \<Rightarrow> db" where
  "scenario_db day =
     \<lparr> store_status = Some
         [\<lparr> status_store_id = ''S'', timestamp_utc = at_hm day 9 0, status = ''active'' \<rparr>,
          \<lparr> status_store_id = ''S'', timestamp_utc = at_hm day 12 0, status = ''active'' \<rparr>,
          \<lparr> status_store_id = ''S'', timestamp_utc = at_hm day 16 0, status = ''inactive'' \<rparr>],
       store_hours = Some
         [\<lparr> hours_store_id = ''S'', day_of_week = 0,
            start_time_local = ''09:00'', end_time_local = ''17:00'' \<rparr>],
       store_timezone = Some [\<lparr> tz_store_id = ''S'', timezone_str = ''UTC'' \<rparr>] \<rparr>"

text \<open>Store N in Chicago, open on Mondays from 22:00 overnight to 06:00; no samples.\<close>

definition overnight_db :: db where
  "overnight_db =
     \<lparr> store_status = Some [],
       store_hours = Some
         [\<lparr> hours_store_id = ''N'', day_of_week = 0,
            start_time_local = ''22:00'', end_time_local = ''06:00'' \<rparr>],
       store_timezone = Some [\<lparr> tz_store_id = ''N'', timezone_str = ''America/Chicago'' \<rparr>] \<rparr>"

text \<open>The scenario with the schedule written with seconds, which \<^verbatim>\<open>%H:%M\<close> does not parse.\<close>

definition malformed_db :: db where
  "malformed_db =
     (scenario_db monday)
       \<lparr> store_hours := Some
           [\<lparr> hours_store_id = ''S'', day_of_week = 0,
              start_time_local = ''09:00:00'', end_time_local = ''17:00:00'' \<rparr>] \<rparr>"

text \<open>The scenario with a zone name that the time zone database does not know.\<close>

definition unknown_zone_db :: db where
  "unknown_zone_db =
     (scenario_db monday)
       \<lparr> store_timezone := Some [\<lparr> tz_store_id = ''S'', timezone_str = ''Mars/Olympus'' \<rparr>] \<rparr>"

text \<open>The scenario with the schedule provider unavailable.\<close>

definition schedule_down_db :: db where
  "schedule_down_db = (scenario_db monday) \<lparr> store_hours := None \<rparr>"

text \<open>
  Store S in zone UTC, open on Mondays from 09:00 to 09:30, polled once on the Monday
  at 09:20 (active).
\<close>

definition overrun_db :: db where
  "overrun_db =
     \<lparr> store_status = Some
         [\<lparr> status_store_id = ''S'', timestamp_utc = at_hm monday 9 20, status = ''active'' \<rparr>],
       store_hours = Some
         [\<lparr> hours_store_id = ''S'', day_of_week = 0,
            start_time_local = ''09:00'', end_time_local = ''09:30'' \<rparr>],
       store_timezone = Some [\<lparr> tz_store_id = ''S'', timezone_str = ''UTC'' \<rparr>] \<rparr>"

text \<open>The scenario with the sample provider unavailable.\<close>

definition status_down_db :: db where
  "status_down_db = (scenario_db monday) \<lparr> store_status := None \<rparr>"

text \<open>The scenario with the time zone provider unavailable.\<close>

definition zone_down_db :: db where
  "zone_down_db = (scenario_db monday) \<lparr> store_timezone := None \<rparr>"

text \<open>The scenario with a single poll, on the Monday at 20:00, after closing time.\<close>

definition after_hours_db :: db where
  "after_hours_db =
     (scenario_db monday)
       \<lparr> store_status := Some
           [\<lparr> status_store_id = ''S'', timestamp_utc = at_hm monday 20 0, status = ''active'' \<rparr>] \<rparr>"

text \<open>The scenario without the 16:00 poll: the last hour before 17:00 holds no sample.\<close>

definition morning_db :: db where
  "morning_db =
     (scenario_db monday)
       \<lparr> store_status := Some
           [\<lparr> status_store_id = ''S'', timestamp_utc = at_hm monday 9 0, status = ''active'' \<rparr>,
            \<lparr> status_store_id = ''S'', timestamp_utc = at_hm monday 12 0, status = ''active'' \<rparr>] \<rparr>"

text \<open>
  The scenario with a second store Q, which has a schedule and a zone and not one status
  sample.
\<close>

definition quiet_db :: db where
  "quiet_db =
     (scenario_db monday)
       \<lparr> store_hours := Some
           [\<lparr> hours_store_id = ''S'', day_of_week = 0,
              start_time_local = ''09:00'', end_time_local = ''17:00'' \<rparr>,
            \<lparr> hours_store_id = ''Q'', day_of_week = 0,
              start_time_local = ''09:00'', end_time_local = ''17:00'' \<rparr>],
         store_timezone := Some
           [\<lparr> tz_store_id = ''S'', timezone_str = ''UTC'' \<rparr>,
            \<lparr> tz_store_id = ''Q'', timezone_str = ''UTC'' \<rparr>] \<rparr>"

section \<open>Helper lemmas\<close>

lemma foldl_cond_add:
  "foldl (\<lambda>acc i. if c i then acc + f i else acc) (a::rat) xs =
     a + (\<Sum>i\<leftarrow>xs. if c i then f i else 0)"
  by (induction xs arbitrary: a) auto

lemma uptime_minutes_loop_sum:
  "uptime_minutes_loop recs current_time =
     (\<Sum>i<length recs. if status (recs ! i) = ''active'' then time_diff recs current_time i else 0)"
proof -
  have "uptime_minutes_loop recs current_time =
      (\<Sum>i\<leftarrow>[0..<length recs].
          if status (recs ! i) = ''active'' then time_diff recs current_time i else 0)"
    unfolding uptime_minutes_loop_def by (simp add: foldl_cond_add)
  also have "\<dots> = (\<Sum>i\<in>{0..<length recs}.
          if status (recs ! i) = ''active'' then time_diff recs current_time i else 0)"
    by (simp add: sum_list_distinct_conv_sum_set flip: interv_sum_list_conv_sum_set_nat)
  finally show ?thesis by (simp add: lessThan_atLeast0)
qed

lemma max_timestamp_fold_ge:
  "foldl (\<lambda>m r. case m of None \<Rightarrow> Some (timestamp_utc r)
                   | Some t \<Rightarrow> if timestamp_utc r > t then Some (timestamp_utc r) else Some t)
      acc rows = Some now
   \<Longrightarrow> (\<forall>r\<in>set rows. timestamp_utc r \<le> now) \<and> (\<forall>t. acc = Some t \<longrightarrow> t \<le> now)"
proof (induction rows arbitrary: acc)
  case Nil
  then show ?case by simp
next
  case (Cons r rows)
  from Cons.IH[OF Cons.prems[simplified]] show ?case
    by (auto split: option.splits if_splits)
qed

lemma sum_int_split_first:
  fixes f :: "int \<Rightarrow> int"
  assumes "c \<le> e"
  shows "(\<Sum>x = c..e. f x) = f c + (\<Sum>x = c + 1..e. f x)"
proof -
  have "{c..e} = insert c {c + 1..e}" using assms by auto
  then show ?thesis by simp
qed

lemma time_le_iff_not_gt: "time_le s e \<longleftrightarrow> \<not> time_gt s e"
  by (auto simp: time_le_def time_gt_def)

lemma day_minutes_budget:
  "strptime_HM (start_time_local h) = Inr s \<Longrightarrow> strptime_HM (end_time_local h) = Inr e
   \<Longrightarrow> spec_day_budget (Some h) = Some (day_minutes s e)"
  by (simp add: spec_day_budget_def day_minutes_def time_le_iff_not_gt)

lemma loop_sum:
  "\<forall>x\<in>{c..e}. date_budget d sid x \<noteq> None \<Longrightarrow>
   total_business_minutes_loop d sid c e t = Inr (t + (\<Sum>x = c..e. the (date_budget d sid x)))"
proof (induction d sid c e t rule: total_business_minutes_loop.induct)
  case (1 d sid c e t)
  show ?case
  proof (cases "c \<le> e")
    case False
    then show ?thesis by (subst total_business_minutes_loop.simps) simp
  next
    case True
    have rest: "\<forall>x\<in>{c + 1..e}. date_budget d sid x \<noteq> None" using "1.prems" by auto
    from True "1.prems" have bc: "date_budget d sid c \<noteq> None" by auto
    then obtain entry where entry: "hours_record_for d sid (weekday c) = Inr entry"
      by (auto simp: date_budget_def split: sum.splits)
    show ?thesis
    proof (cases entry)
      case None
      with entry have b: "date_budget d sid c = Some 1440"
        by (simp add: date_budget_def spec_day_budget_def)
      from "1.IH"(1)[OF True entry None rest] b True entry None show ?thesis
        by (subst total_business_minutes_loop.simps) (simp add: sum_int_split_first)
    next
      case (Some h)
      from bc entry Some obtain s e' where
        s: "strptime_HM (start_time_local h) = Inr s" and e': "strptime_HM (end_time_local h) = Inr e'"
        by (auto simp: date_budget_def spec_day_budget_def split: sum.splits)
      have b: "date_budget d sid c = Some (day_minutes s e')"
        using entry Some day_minutes_budget[OF s e'] by (simp add: date_budget_def)
      from "1.IH"(2)[OF True entry Some s e' rest] b True entry Some s e' show ?thesis
        by (subst total_business_minutes_loop.simps) (simp add: sum_int_split_first)
    qed
  qed
qed

lemma max_timestamp_ge: "max_timestamp rows = Some now \<Longrightarrow> r \<in> set rows \<Longrightarrow> timestamp_utc r \<le> now"
  unfolding max_timestamp_def using max_timestamp_fold_ge by blast

lemma status_records_subset:
  "store_status d = Some rows \<Longrightarrow> status_records d sid = Inr recs \<Longrightarrow> set recs \<subseteq> set rows"
  by (auto simp: status_records_def)

lemma scenario_budget_sunday: "date_budget (scenario_db monday) ''S'' 738541 = Some 1440"
  by (simp add: date_budget_def hours_record_for_def query_first_def scenario_db_def weekday_def
      spec_day_budget_def)

lemma strptime_0900: "strptime_HM ''09:00'' = Inr \<lparr> hour = 9, minute = 0, second = 0, microsecond = 0 \<rparr>"
  by (simp add: strptime_HM_def digit_def)

lemma strptime_1700: "strptime_HM ''17:00'' = Inr \<lparr> hour = 17, minute = 0, second = 0, microsecond = 0 \<rparr>"
  by (simp add: strptime_HM_def digit_def)

lemma scenario_budget_monday: "date_budget (scenario_db monday) ''S'' 738542 = Some 480"
  by (simp add: date_budget_def hours_record_for_def query_first_def scenario_db_def weekday_def
      spec_day_budget_def strptime_0900 strptime_1700 time_le_def time_tuple_def)

lemma at_hm_split:
  assumes "0 \<le> h * 60 + m" "h * 60 + m < 1440"
  shows "at_hm d h m div MICROS_PER_DAY = d" "at_hm d h m mod MICROS_PER_DAY = (h * 60 + m) * 60000000"
proof -
  let ?r = "(h * 60 + m) * 60000000"
  have r: "0 \<le> ?r" "?r < 86400000000" using assms by auto
  have eq: "at_hm d h m = d * 86400000000 + ?r"
    by (simp add: at_hm_def MICROS_PER_DAY_def MICROS_PER_MINUTE_def)
  show "at_hm d h m div MICROS_PER_DAY = d"
    unfolding eq MICROS_PER_DAY_def using r by (simp add: div_pos_pos_trivial)
  show "at_hm d h m mod MICROS_PER_DAY = ?r"
    unfolding eq MICROS_PER_DAY_def using r by (simp add: mod_pos_pos_trivial)
qed

lemma date_of_at_hm: "0 \<le> h * 60 + m \<Longrightarrow> h * 60 + m < 1440 \<Longrightarrow> date_of (at_hm d h m) = d"
  by (simp add: date_of_def at_hm_split)

lemma time_of_at_hm:
  assumes "0 \<le> h" "h < 24" "0 \<le> m" "m < 60"
  shows "time_of (at_hm d h m) = \<lparr> hour = h, minute = m, second = 0, microsecond = 0 \<rparr>"
proof -
  have b: "0 \<le> h * 60 + m" "h * 60 + m < 1440" using assms by auto
  let ?r = "(h * 60 + m) * 60000000"
  have h: "?r div 3600000000 = h"
  proof -
    have "?r = h * 3600000000 + m * 60000000" by (simp add: algebra_simps)
    moreover have "0 \<le> m * 60000000" "m * 60000000 < 3600000000" using assms by auto
    ultimately show ?thesis by (simp add: div_pos_pos_trivial)
  qed
  have m: "(?r div 60000000) mod 60 = m" using assms by (simp add: mod_pos_pos_trivial)
  have s: "(?r div 1000000) mod 60 = 0"
  proof -
    have "?r = ((h * 60 + m) * 60) * 1000000" by simp
    then have "?r div 1000000 = (h * 60 + m) * 60" by simp
    then show ?thesis by simp
  qed
  have u: "?r mod 1000000 = 0" by simp
  show ?thesis
    unfolding time_of_def at_hm_split(2)[OF b] Let_def using h m s u by simp
qed

lemma at_hm_minus_hour: "at_hm d h m - 60 * MICROS_PER_MINUTE = at_hm d (h - 1) m"
  by (simp add: at_hm_def MICROS_PER_MINUTE_def MICROS_PER_DAY_def algebra_simps)

lemma at_hm_minus_day: "at_hm d h m - MICROS_PER_DAY = at_hm (d - 1) h m"
  by (simp add: at_hm_def MICROS_PER_MINUTE_def MICROS_PER_DAY_def algebra_simps)

lemma at_hm_minutes: "at_hm d h m = (d * 1440 + h * 60 + m) * 60000000"
  by (simp add: at_hm_def MICROS_PER_MINUTE_def MICROS_PER_DAY_def algebra_simps)

lemma at_hm_le: "at_hm d h m \<le> at_hm d' h' m' \<longleftrightarrow> d * 1440 + h * 60 + m \<le> d' * 1440 + h' * 60 + m'"
  unfolding at_hm_minutes by (simp only: mult_le_cancel_right) simp

lemma scenario_status_records:
  "status_records (scenario_db day) ''S'' = Inr
     [\<lparr> status_store_id = ''S'', timestamp_utc = at_hm day 9 0, status = ''active'' \<rparr>,
      \<lparr> status_store_id = ''S'', timestamp_utc = at_hm day 12 0, status = ''active'' \<rparr>,
      \<lparr> status_store_id = ''S'', timestamp_utc = at_hm day 16 0, status = ''inactive'' \<rparr>]"
  by (simp add: status_records_def scenario_db_def at_hm_le)

lemma scenario_is_store_open:
  assumes "weekday day = 0" "9 \<le> h" "h < 17"
  shows "is_store_open example_tzdb (scenario_db day) ''S'' (at_hm day h 0)"
proof -
  have t: "time_of (at_hm day h 0) = \<lparr> hour = h, minute = 0, second = 0, microsecond = 0 \<rparr>"
    using assms by (intro time_of_at_hm) auto
  have dd: "date_of (at_hm day h 0) = day" using assms by (intro date_of_at_hm) auto
  show ?thesis
    using assms
    by (simp add: is_store_open_def is_store_open_try_def query_first_def scenario_db_def
        example_tzdb_def hours_record_for_def dd t strptime_0900 strptime_1700
        time_gt_def time_le_def time_tuple_def)
qed

lemma scenario_business_hours_records:
  assumes "weekday day = 0"
  shows "business_hours_records example_tzdb (scenario_db day) ''S''
     [\<lparr> status_store_id = ''S'', timestamp_utc = at_hm day 9 0, status = ''active'' \<rparr>,
      \<lparr> status_store_id = ''S'', timestamp_utc = at_hm day 12 0, status = ''active'' \<rparr>,
      \<lparr> status_store_id = ''S'', timestamp_utc = at_hm day 16 0, status = ''inactive'' \<rparr>] =
     [\<lparr> status_store_id = ''S'', timestamp_utc = at_hm day 9 0, status = ''active'' \<rparr>,
      \<lparr> status_store_id = ''S'', timestamp_utc = at_hm day 12 0, status = ''active'' \<rparr>,
      \<lparr> status_store_id = ''S'', timestamp_utc = at_hm day 16 0, status = ''inactive'' \<rparr>]"
  using scenario_is_store_open[OF assms, of 9] scenario_is_store_open[OF assms, of 12]
    scenario_is_store_open[OF assms, of 16]
  by (simp add: business_hours_records_def)

lemma scenario_date_budget_monday:
  assumes "weekday x = 0"
  shows "date_budget (scenario_db day) ''S'' x = Some 480"
  using assms
  by (simp add: date_budget_def hours_record_for_def query_first_def scenario_db_def
      spec_day_budget_def strptime_0900 strptime_1700 time_le_def time_tuple_def)

lemma scenario_date_budget_other:
  assumes "weekday x \<noteq> 0"
  shows "date_budget (scenario_db day) ''S'' x = Some 1440"
  using assms
  by (simp add: date_budget_def hours_record_for_def query_first_def scenario_db_def
      spec_day_budget_def)

lemma scenario_minutes_hour:
  assumes "weekday day = 0"
  shows "total_business_minutes_loop (scenario_db day) ''S''
           (date_of (at_hm day 16 0)) (date_of (at_hm day 17 0)) 0 = Inr 480"
proof -
  have "\<forall>x\<in>{day..day}. date_budget (scenario_db day) ''S'' x \<noteq> None"
    using scenario_date_budget_monday[OF assms] by simp
  from loop_sum[OF this, of 0] show ?thesis
    by (simp add: date_of_at_hm scenario_date_budget_monday[OF assms])
qed

lemma scenario_minutes_day:
  assumes "weekday day = 0"
  shows "total_business_minutes_loop (scenario_db day) ''S''
           (date_of (at_hm (day - 1) 17 0)) (date_of (at_hm day 17 0)) 0 = Inr 1920"
proof -
  have w: "weekday (day - 1) \<noteq> 0" using assms unfolding weekday_def by presburger
  have iv: "{day - 1..day} = {day - 1, day}" by auto
  have "\<forall>x\<in>{day - 1..day}. date_budget (scenario_db day) ''S'' x \<noteq> None"
    unfolding iv using scenario_date_budget_monday[OF assms] scenario_date_budget_other[OF w] by simp
  from loop_sum[OF this, of 0] show ?thesis
    by (simp add: date_of_at_hm iv scenario_date_budget_monday[OF assms]
        scenario_date_budget_other[OF w])
qed

lemma scenario_hour:
  assumes "weekday day = 0"
  shows "calculate_uptime_downtime_try example_tzdb (scenario_db day) (Some (at_hm day 17 0)) ''S'' ''hour''
           = Inr (0, 480)"
proof -
  have up: "uptime_minutes_loop
      [\<lparr> status_store_id = ''S'', timestamp_utc = at_hm day 16 0, status = ''inactive'' \<rparr>]
      (at_hm day 17 0) = 0"
    by (simp add: uptime_minutes_loop_def)
  show ?thesis
    unfolding calculate_uptime_downtime_try_def scenario_status_records
    by (simp add: scenario_business_hours_records[OF assms] period_delta_def at_hm_minus_hour
        period_records_def at_hm_le scenario_minutes_hour[OF assms] up Let_def)
qed

lemma scenario_uptime_day:
  "uptime_minutes_loop
     (period_records
        [\<lparr> status_store_id = ''S'', timestamp_utc = at_hm day 9 0, status = ''active'' \<rparr>,
         \<lparr> status_store_id = ''S'', timestamp_utc = at_hm day 12 0, status = ''active'' \<rparr>,
         \<lparr> status_store_id = ''S'', timestamp_utc = at_hm day 16 0, status = ''inactive'' \<rparr>]
        (at_hm day 17 0 - MICROS_PER_DAY))
     (at_hm day 17 0) = 420"
proof -
  have three: "[0..<3] = [0, 1, 2]" by (simp add: upt_rec)
  have all: "period_records
        [\<lparr> status_store_id = ''S'', timestamp_utc = at_hm day 9 0, status = ''active'' \<rparr>,
         \<lparr> status_store_id = ''S'', timestamp_utc = at_hm day 12 0, status = ''active'' \<rparr>,
         \<lparr> status_store_id = ''S'', timestamp_utc = at_hm day 16 0, status = ''inactive'' \<rparr>]
        (at_hm day 17 0 - MICROS_PER_DAY) =
        [\<lparr> status_store_id = ''S'', timestamp_utc = at_hm day 9 0, status = ''active'' \<rparr>,
         \<lparr> status_store_id = ''S'', timestamp_utc = at_hm day 12 0, status = ''active'' \<rparr>,
         \<lparr> status_store_id = ''S'', timestamp_utc = at_hm day 16 0, status = ''inactive'' \<rparr>]"
    by (simp add: period_records_def at_hm_minus_day at_hm_le)
  show ?thesis
    unfolding all
    by (simp add: uptime_minutes_loop_def three time_diff_def next_time_def at_hm_minutes)
qed

lemma scenario_day:
  assumes "weekday day = 0"
  shows "calculate_uptime_downtime_try example_tzdb (scenario_db day) (Some (at_hm day 17 0)) ''S'' ''day''
           = Inr (7, 25)"
proof -
  have ne: "period_records
        [\<lparr> status_store_id = ''S'', timestamp_utc = at_hm day 9 0, status = ''active'' \<rparr>,
         \<lparr> status_store_id = ''S'', timestamp_utc = at_hm day 12 0, status = ''active'' \<rparr>,
         \<lparr> status_store_id = ''S'', timestamp_utc = at_hm day 16 0, status = ''inactive'' \<rparr>]
        (at_hm day 17 0 - MICROS_PER_DAY) \<noteq> []"
    by (simp add: period_records_def at_hm_minus_day at_hm_le)
  show ?thesis
    unfolding calculate_uptime_downtime_try_def scenario_status_records
    using ne
    by (simp add: scenario_business_hours_records[OF assms] period_delta_def
        scenario_minutes_day[OF assms, unfolded at_hm_minus_day[symmetric]]
        scenario_uptime_day Let_def)
qed

lemma calculate_Inr:
  "calculate_uptime_downtime_try tz d M sid p = Inr r \<Longrightarrow> calculate_uptime_downtime tz d M sid p = r"
  by (simp add: calculate_uptime_downtime_def)

lemma period_records_nonempty:
  "period_records (business_hours_records tz d sid recs) start \<noteq> [] \<Longrightarrow>
     recs \<noteq> [] \<and> business_hours_records tz d sid recs \<noteq> []"
  by (auto simp: period_records_def business_hours_records_def filter_empty_conv)

lemma calculate_try_result:
  assumes "status_records d sid = Inr recs"
    and "period_delta p = Some delta"
    and "period_records (business_hours_records tz d sid recs) (now - delta) \<noteq> []"
    and "total_business_minutes_loop d sid (date_of (now - delta)) (date_of now) 0 = Inr bm"
  shows "calculate_uptime_downtime_try tz d (Some now) sid p =
     Inr (let up = uptime_minutes_loop
                     (period_records (business_hours_records tz d sid recs) (now - delta)) now
          in if p = ''hour'' then (up, of_int bm - up) else (up / 60, (of_int bm - up) / 60))"
  using assms period_records_nonempty[OF assms(3)]
  by (simp add: calculate_uptime_downtime_try_def Let_def)

lemma weekday_monday: "weekday monday = 0"
  by (simp add: weekday_def monday_def)

lemma is_store_open_try_resolved:
  assumes "query_first (store_timezone d) (\<lambda>r. tz_store_id r = sid) = Inr timezone_record"
    and "tz (case timezone_record of Some r \<Rightarrow> timezone_str r | None \<Rightarrow> ''America/Chicago'')
           = Some local_tz"
    and "hours_record_for d sid (weekday (date_of (ts + local_tz ts))) = Inr entry"
  shows "is_store_open_try tz d sid ts =
     (case entry of
        None \<Rightarrow> Inr True
      | Some h \<Rightarrow>
          (case strptime_HM (start_time_local h) of
             Inl e \<Rightarrow> Inl e
           | Inr s \<Rightarrow>
               (case strptime_HM (end_time_local h) of
                  Inl e \<Rightarrow> Inl e
                | Inr e \<Rightarrow>
                    if time_gt s e
                    then Inr (time_le s (time_of (ts + local_tz ts)) \<or> time_le (time_of (ts + local_tz ts)) e)
                    else Inr (time_le s (time_of (ts + local_tz ts)) \<and> time_le (time_of (ts + local_tz ts)) e))))"
  unfolding is_store_open_try_def Let_def using assms by simp

lemma strptime_2200: "strptime_HM ''22:00'' = Inr (time_hm 22 0)"
  by (simp add: strptime_HM_def digit_def time_hm_def)

lemma strptime_0600: "strptime_HM ''06:00'' = Inr (time_hm 6 0)"
  by (simp add: strptime_HM_def digit_def time_hm_def)

lemma overnight_lookup:
  "query_first (store_timezone overnight_db) (\<lambda>r. tz_store_id r = ''N'')
     = Inr (Some \<lparr> tz_store_id = ''N'', timezone_str = ''America/Chicago'' \<rparr>)"
  by (simp add: query_first_def overnight_db_def)

lemma overnight_entry:
  "hours_record_for overnight_db ''N'' 0
     = Inr (Some \<lparr> hours_store_id = ''N'', day_of_week = 0,
                   start_time_local = ''22:00'', end_time_local = ''06:00'' \<rparr>)"
  by (simp add: hours_record_for_def query_first_def overnight_db_def)

lemma chicago_local:
  "at_hm d h m - 360 * MICROS_PER_MINUTE = at_hm d (h - 6) m"
  by (simp add: at_hm_def MICROS_PER_MINUTE_def MICROS_PER_DAY_def algebra_simps)

lemma at_hm_carry: "at_hm (d + 1) h m = at_hm d (h + 24) m"
  by (simp add: at_hm_def MICROS_PER_MINUTE_def MICROS_PER_DAY_def algebra_simps)

lemma overrun_hour:
  "calculate_uptime_downtime example_tzdb overrun_db (Some (at_hm monday 10 10)) ''S'' ''hour''
     = (50, - 20)"
  by code_simp

lemma overrun_status_records:
  "status_records overrun_db ''S'' = Inr
     [\<lparr> status_store_id = ''S'', timestamp_utc = at_hm monday 9 20, status = ''active'' \<rparr>]"
  by (simp add: status_records_def overrun_db_def)

lemma overrun_period_records:
  "period_records (business_hours_records example_tzdb overrun_db ''S''
       [\<lparr> status_store_id = ''S'', timestamp_utc = at_hm monday 9 20, status = ''active'' \<rparr>])
     (at_hm monday 10 10 - 60 * MICROS_PER_MINUTE)
   = [\<lparr> status_store_id = ''S'', timestamp_utc = at_hm monday 9 20, status = ''active'' \<rparr>]"
  by code_simp

lemma overrun_minutes_hour:
  "total_business_minutes_loop overrun_db ''S''
     (date_of (at_hm monday 10 10 - 60 * MICROS_PER_MINUTE)) (date_of (at_hm monday 10 10)) 0 = Inr 30"
  by code_simp

lemma period_delta_hour: "period_delta ''hour'' = Some (60 * MICROS_PER_MINUTE)"
  by (simp add: period_delta_def)

lemma is_store_open_Inl: "is_store_open_try tz d sid ts = Inl exc \<Longrightarrow> is_store_open tz d sid ts"
  by (simp add: is_store_open_def)

lemma strptime_seconds:
  "strptime_HM ''09:00:00'' = Inl ValueError" "strptime_HM ''17:00:00'' = Inl ValueError"
  by (simp_all add: strptime_HM_def digit_def)

lemma date_of_mono: "a \<le> b \<Longrightarrow> date_of a \<le> date_of b"
  by (simp add: date_of_def MICROS_PER_DAY_def zdiv_mono1)

lemma period_delta_pos: "period_delta p = Some delta \<Longrightarrow> 0 < delta"
  by (auto simp: period_delta_def MICROS_PER_MINUTE_def MICROS_PER_DAY_def split: if_splits)

lemma loop_schedule_down:
  "store_hours d = None \<Longrightarrow> c \<le> e \<Longrightarrow>
     total_business_minutes_loop d sid c e t = Inl OperationalError"
  by (subst total_business_minutes_loop.simps) (simp add: hours_record_for_def query_first_def)

lemma calculate_try_schedule_down:
  assumes "store_hours d = None"
  shows "calculate_uptime_downtime_try tz d M sid p = Inr (0, 0)
       \<or> (\<exists>exc. calculate_uptime_downtime_try tz d M sid p = Inl exc)"
proof -
  have "total_business_minutes_loop d sid (date_of (now - delta)) (date_of now) 0
          = Inl OperationalError" if "period_delta p = Some delta" for now delta
    using loop_schedule_down[OF assms] date_of_mono[of "now - delta" now] period_delta_pos[OF that]
    by simp
  then show ?thesis
    unfolding calculate_uptime_downtime_try_def Let_def
    by (auto split: sum.splits option.splits)
qed

lemma calculate_schedule_down:
  "store_hours d = None \<Longrightarrow> calculate_uptime_downtime tz d M sid p = (0, 0)"
  using calculate_try_schedule_down[of d tz M sid p]
  by (auto simp: calculate_uptime_downtime_def)

lemma is_store_open_schedule_down: "store_hours d = None \<Longrightarrow> is_store_open tz d sid ts"
  unfolding is_store_open_def is_store_open_try_def Let_def hours_record_for_def query_first_def
  by (simp split: sum.splits option.splits)

lemma is_store_open_zone_down: "store_timezone d = None \<Longrightarrow> is_store_open tz d sid ts"
  unfolding is_store_open_def is_store_open_try_def Let_def query_first_def
  by simp

lemma round2_zero: "round2 0 = 0"
  by (simp add: round2_def)

lemma report_data_row_schedule_down:
  "store_hours d = None \<Longrightarrow> report_data_row tz d M sid =
     \<lparr> store_id = sid,
       uptime_last_hour = 0, uptime_last_day = 0, uptime_last_week = 0,
       downtime_last_hour = 0, downtime_last_day = 0, downtime_last_week = 0 \<rparr>"
  by (simp add: report_data_row_def calculate_schedule_down round2_zero)

lemma round2_hundredths: "\<exists>n::int. round2 x = of_int n / 100"
  unfolding round2_def Let_def by blast

lemma round2_close: "\<bar>round2 x - x\<bar> \<le> 1 / 200"
proof -
  define y where "y = x * 100"
  define f where "f = \<lfloor>y\<rfloor>"
  have lo: "of_int f \<le> y" and hi: "y < of_int f + 1"
    unfolding f_def by linarith+
  have x: "x = y / 100" by (simp add: y_def)
  consider "y - of_int f < 1 / 2" | "y - of_int f > 1 / 2" | "y - of_int f = 1 / 2" by linarith
  then show ?thesis
  proof cases
    case 1
    then have "round2 x = of_int f / 100" by (simp add: round2_def Let_def y_def f_def)
    with 1 lo hi show ?thesis unfolding x by (simp add: field_simps abs_if)
  next
    case 2
    then have "round2 x = of_int (f + 1) / 100" by (simp add: round2_def Let_def y_def f_def)
    with 2 lo hi show ?thesis unfolding x by (simp add: field_simps abs_if)
  next
    case 3
    then have "round2 x = of_int f / 100 \<or> round2 x = of_int (f + 1) / 100"
      by (simp add: round2_def Let_def y_def f_def)
    with 3 lo hi show ?thesis unfolding x by (auto simp: field_simps abs_if)
  qed
qed

lemma report_data_row_fields:
  "report_data_row tz d M sid =
     \<lparr> store_id = sid,
       uptime_last_hour = round2 (fst (calculate_uptime_downtime tz d M sid ''hour'')),
       uptime_last_day = round2 (fst (calculate_uptime_downtime tz d M sid ''day'')),
       uptime_last_week = round2 (fst (calculate_uptime_downtime tz d M sid ''week'')),
       downtime_last_hour = round2 (snd (calculate_uptime_downtime tz d M sid ''hour'')),
       downtime_last_day = round2 (snd (calculate_uptime_downtime tz d M sid ''day'')),
       downtime_last_week = round2 (snd (calculate_uptime_downtime tz d M sid ''week'')) \<rparr>"
  by (simp add: report_data_row_def split_beta)

lemma period_delta_day: "period_delta ''day'' = Some MICROS_PER_DAY"
  by (simp add: period_delta_def)

lemma overrun_period_records_day:
  "period_records (business_hours_records example_tzdb overrun_db ''S''
       [\<lparr> status_store_id = ''S'', timestamp_utc = at_hm monday 9 20, status = ''active'' \<rparr>])
     (at_hm monday 10 10 - MICROS_PER_DAY)
   = [\<lparr> status_store_id = ''S'', timestamp_utc = at_hm monday 9 20, status = ''active'' \<rparr>]"
  by code_simp

lemma overrun_minutes_day:
  "total_business_minutes_loop overrun_db ''S''
     (date_of (at_hm monday 10 10 - MICROS_PER_DAY)) (date_of (at_hm monday 10 10)) 0 = Inr 1470"
  by code_simp

lemma overrun_uptime:
  "uptime_minutes_loop
      [\<lparr> status_store_id = ''S'', timestamp_utc = at_hm monday 9 20, status = ''active'' \<rparr>]
      (at_hm monday 10 10) = 50"
  by code_simp

lemma overrun_week:
  "calculate_uptime_downtime example_tzdb overrun_db (Some (at_hm monday 10 10)) ''S'' ''week''
     = (5 / 6, 865 / 6)"
  by code_simp

lemma round2_values:
  "round2 50 = 50" "round2 (- 20) = - 20" "round2 (5 / 6) = 83 / 100"
  "round2 (71 / 3) = 2367 / 100" "round2 (865 / 6) = 14417 / 100"
  by code_simp+

lemma calculate_try_no_samples:
  "status_records d sid = Inr [] \<Longrightarrow> calculate_uptime_downtime_try tz d M sid p = Inr (0, 0)"
  by (simp add: calculate_uptime_downtime_try_def)

lemma calculate_try_none_open:
  "status_records d sid = Inr recs \<Longrightarrow> business_hours_records tz d sid recs = [] \<Longrightarrow>
     calculate_uptime_downtime_try tz d M sid p = Inr (0, 0)"
  by (simp add: calculate_uptime_downtime_try_def)

lemma calculate_try_none_in_window:
  assumes "status_records d sid = Inr recs" and "period_delta p = Some delta"
    and "\<forall>r\<in>set recs. \<not> now - delta \<le> timestamp_utc r"
  shows "calculate_uptime_downtime_try tz d (Some now) sid p = Inr (0, 0)"
proof -
  have "period_records (business_hours_records tz d sid recs) (now - delta) = []"
    using assms(3) by (auto simp: period_records_def business_hours_records_def filter_empty_conv)
  then show ?thesis
    using assms(1,2) by (simp add: calculate_uptime_downtime_try_def Let_def)
qed

lemma period_delta_week: "period_delta ''week'' = Some (7 * MICROS_PER_DAY)"
  by (simp add: period_delta_def)

lemma after_hours_status_records:
  "status_records after_hours_db ''S'' = Inr
     [\<lparr> status_store_id = ''S'', timestamp_utc = at_hm monday 20 0, status = ''active'' \<rparr>]"
  by (simp add: status_records_def after_hours_db_def)

lemma after_hours_closed:
  "business_hours_records example_tzdb after_hours_db ''S''
     [\<lparr> status_store_id = ''S'', timestamp_utc = at_hm monday 20 0, status = ''active'' \<rparr>] = []"
  by code_simp

lemma at_hm_minus_week: "at_hm d h m - 7 * MICROS_PER_DAY = at_hm (d - 7) h m"
  by (simp add: at_hm_def MICROS_PER_MINUTE_def MICROS_PER_DAY_def algebra_simps)

lemma calculate_try_window_empty:
  assumes "status_records d sid = Inr recs"
    and "period_records (business_hours_records tz d sid recs) (now - delta) = []"
    and "period_delta p = Some delta"
  shows "calculate_uptime_downtime_try tz d (Some now) sid p = Inr (0, 0)"
  using assms by (simp add: calculate_uptime_downtime_try_def Let_def)

lemma morning_status_records:
  "status_records morning_db ''S'' = Inr
     [\<lparr> status_store_id = ''S'', timestamp_utc = at_hm monday 9 0, status = ''active'' \<rparr>,
      \<lparr> status_store_id = ''S'', timestamp_utc = at_hm monday 12 0, status = ''active'' \<rparr>]"
  by code_simp

lemma morning_period_records:
  "period_records (business_hours_records example_tzdb morning_db ''S''
       [\<lparr> status_store_id = ''S'', timestamp_utc = at_hm monday 9 0, status = ''active'' \<rparr>,
        \<lparr> status_store_id = ''S'', timestamp_utc = at_hm monday 12 0, status = ''active'' \<rparr>])
     (at_hm monday 17 0 - 60 * MICROS_PER_MINUTE) = []"
  by code_simp

lemma morning_minutes_hour:
  "total_business_minutes_loop morning_db ''S''
     (date_of (at_hm monday 17 0 - 60 * MICROS_PER_MINUTE)) (date_of (at_hm monday 17 0)) 0 = Inr 480"
  by code_simp

lemma morning_hour:
  "calculate_uptime_downtime example_tzdb morning_db (Some (at_hm monday 17 0)) ''S'' ''hour'' = (0, 0)"
  by code_simp

lemma uptime_minutes_loop_Nil: "uptime_minutes_loop [] now = 0"
  by (simp add: uptime_minutes_loop_def)

lemma store_id_report_data_row: "store_id (report_data_row tz d M sid) = sid"
  by (simp add: report_data_row_fields)

lemma no_samples_no_row:
  assumes "status_records d sid = Inr []" and "generate_report tz d M = Complete report_data"
  shows "sid \<notin> store_id ` set report_data"
proof -
  from assms(1) obtain rows where rows: "store_status d = Some rows"
    and e: "sort_key timestamp_utc (filter (\<lambda>r. status_store_id r = sid) rows) = []"
    by (auto simp: status_records_def split: option.splits)
  from e have "set (filter (\<lambda>r. status_store_id r = sid) rows) = {}"
    by (metis set_sort list.set(1))
  then have n: "sid \<notin> status_store_id ` set rows" by auto
  from assms(2) rows have "report_data = map (report_data_row tz d M) (remdups (map status_store_id rows))"
    by (simp add: generate_report_def)
  then have "store_id ` set report_data = status_store_id ` set rows"
    by (simp add: image_image store_id_report_data_row)
  with n show ?thesis by simp
qed

lemma quiet_status_records: "status_records quiet_db ''Q'' = Inr []"
  by code_simp

lemma quiet_report:
  "generate_report example_tzdb quiet_db (Some (at_hm monday 17 0)) =
     Complete [\<lparr> store_id = ''S'',
                 uptime_last_hour = 0, uptime_last_day = 7, uptime_last_week = 7,
                 downtime_last_hour = 480, downtime_last_day = 25, downtime_last_week = 153 \<rparr>]"
  by code_simp

section \<open>The end-to-end scenario\<close>

text \<open>
  Claim C1, as the code has it. In the scenario of store S (zone UTC, open on Mondays from
  09:00 to 17:00, polled on a Monday at 09:00 active, 12:00 active and 16:00 inactive, with the
  reference instant at 17:00 of that Monday), for every Monday: the hour window gives uptime 0
  and downtime 480 minutes, its business minutes being the 480 of the whole Monday schedule;
  the day window gives uptime 7 hours and downtime 25 hours, its business minutes being 1920,
  the 1440 of the Sunday without an entry plus the 480 of the Monday, and its uptime minutes
  420.
\<close>

theorem scenario_results:
  assumes "weekday day = 0"
  shows "calculate_uptime_downtime example_tzdb (scenario_db day) (Some (at_hm day 17 0)) ''S'' ''hour''
           = (0, 480)
       \<and> total_business_minutes_loop (scenario_db day) ''S''
           (date_of (at_hm day 17 0 - 60 * MICROS_PER_MINUTE)) (date_of (at_hm day 17 0)) 0 = Inr 480
       \<and> calculate_uptime_downtime example_tzdb (scenario_db day) (Some (at_hm day 17 0)) ''S'' ''day''
           = (7, 25)
       \<and> total_business_minutes_loop (scenario_db day) ''S''
           (date_of (at_hm day 17 0 - MICROS_PER_DAY)) (date_of (at_hm day 17 0)) 0 = Inr 1920
       \<and> uptime_minutes_loop
           (period_records
              [\<lparr> status_store_id = ''S'', timestamp_utc = at_hm day 9 0, status = ''active'' \<rparr>,
               \<lparr> status_store_id = ''S'', timestamp_utc = at_hm day 12 0, status = ''active'' \<rparr>,
               \<lparr> status_store_id = ''S'', timestamp_utc = at_hm day 16 0, status = ''inactive'' \<rparr>]
              (at_hm day 17 0 - MICROS_PER_DAY))
           (at_hm day 17 0) = 420"
  using calculate_Inr[OF scenario_hour[OF assms]] calculate_Inr[OF scenario_day[OF assms]]
    scenario_minutes_hour[OF assms] scenario_minutes_day[OF assms] scenario_uptime_day[of day]
  by (simp add: at_hm_minus_hour at_hm_minus_day)

theorem scenario_results_witness:
  "calculate_uptime_downtime example_tzdb (scenario_db monday) (Some (at_hm monday 17 0)) ''S'' ''hour''
           = (0, 480)
   \<and> calculate_uptime_downtime example_tzdb (scenario_db monday) (Some (at_hm monday 17 0)) ''S'' ''day''
           = (7, 25)"
  using scenario_results[OF weekday_monday] by simp

text \<open>
  Claim C1 as the specification words it gives downtime 60 minutes (business minutes 60) for
  the hour window and downtime 1 hour (business minutes 480) for the day window; on the Monday
  2023-01-23 the code gives none of them.
\<close>

theorem scenario_spec_counterexample:
  "calculate_uptime_downtime example_tzdb (scenario_db monday) (Some (at_hm monday 17 0)) ''S'' ''hour''
           \<noteq> (0, 60)
   \<and> total_business_minutes_loop (scenario_db monday) ''S''
           (date_of (at_hm monday 17 0 - 60 * MICROS_PER_MINUTE)) (date_of (at_hm monday 17 0)) 0
           \<noteq> Inr 60
   \<and> calculate_uptime_downtime example_tzdb (scenario_db monday) (Some (at_hm monday 17 0)) ''S'' ''day''
           \<noteq> (7, 1)
   \<and> total_business_minutes_loop (scenario_db monday) ''S''
           (date_of (at_hm monday 17 0 - MICROS_PER_DAY)) (date_of (at_hm monday 17 0)) 0
           \<noteq> Inr 480"
  using calculate_Inr[OF scenario_hour[OF weekday_monday]]
    calculate_Inr[OF scenario_day[OF weekday_monday]]
    scenario_minutes_hour[OF weekday_monday] scenario_minutes_day[OF weekday_monday]
  by (simp add: at_hm_minus_hour at_hm_minus_day)

section \<open>The business minutes accumulator\<close>

text \<open>
  Claim C2. Whenever every date touched by the window has a budget (its weekday has no
  schedule entry, or an entry whose two strings parse), the business minutes computed for the
  window from \<open>window_start\<close> to \<open>window_end\<close> are the sum, over every calendar date from the
  date of \<open>window_start\<close> to the date of \<open>window_end\<close> inclusive, of that date's budget: 1440
  without an entry, end minus start when start is at most end, and the minutes to midnight plus
  the minutes after it when start is after end. The total depends on the two instants only
  through their dates, so a boundary date counts in full.
\<close>

theorem business_minutes_sum_of_day_budgets:
  assumes "\<forall>x\<in>{date_of window_start..date_of window_end}. date_budget d sid x \<noteq> None"
  shows "total_business_minutes_loop d sid (date_of window_start) (date_of window_end) 0 =
           Inr (\<Sum>x = date_of window_start..date_of window_end. the (date_budget d sid x))"
  using loop_sum[OF assms, of 0] by simp

theorem business_minutes_sum_of_day_budgets_witness:
  "total_business_minutes_loop (scenario_db monday) ''S''
      (date_of (at_hm monday 17 0 - MICROS_PER_DAY)) (date_of (at_hm monday 17 0)) 0 = Inr 1920"
proof -
  have d1: "date_of (at_hm monday 17 0 - MICROS_PER_DAY) = 738541"
    by (simp add: date_of_def at_hm_def monday_def MICROS_PER_DAY_def MICROS_PER_MINUTE_def)
  have d2: "date_of (at_hm monday 17 0) = 738542"
    by (simp add: date_of_def at_hm_def monday_def MICROS_PER_DAY_def MICROS_PER_MINUTE_def)
  have iv: "{738541..738542::int} = {738541, 738542}" by auto
  show ?thesis
    using business_minutes_sum_of_day_budgets[of "at_hm monday 17 0 - MICROS_PER_DAY"
        "at_hm monday 17 0" "scenario_db monday" "''S''"]
    by (simp add: d1 d2 iv scenario_budget_sunday scenario_budget_monday)
qed

section \<open>The uptime extrapolator\<close>

text \<open>
  Claim C3. For every sequence of in-window samples and every window end, the uptime is the
  sum, over the samples whose status is \<^verbatim>\<open>active\<close>, of the minutes from the sample to the
  next sample, or to the window end for the last sample; every other sample adds nothing, and
  nothing is added for the time before the first sample. In particular the samples
  \<open>(t0, active), (t1, inactive), (t2, active)\<close> give \<open>(t1 - t0) + (window_end - t2)\<close>, in minutes.
\<close>

theorem uptime_forward_fill:
  "uptime_minutes_loop recs window_end =
     (\<Sum>i<length recs.
        if status (recs ! i) = ''active''
        then of_int ((if i + 1 < length recs then timestamp_utc (recs ! (i + 1)) else window_end)
                     - timestamp_utc (recs ! i)) / 1000000 / 60
        else 0)
   \<and> uptime_minutes_loop
         [\<lparr> status_store_id = s0, timestamp_utc = t0, status = ''active'' \<rparr>,
          \<lparr> status_store_id = s1, timestamp_utc = t1, status = ''inactive'' \<rparr>,
          \<lparr> status_store_id = s2, timestamp_utc = t2, status = ''active'' \<rparr>] window_end =
       of_int (t1 - t0) / 60000000 + of_int (window_end - t2) / 60000000"
proof
  show "uptime_minutes_loop recs window_end =
     (\<Sum>i<length recs.
        if status (recs ! i) = ''active''
        then of_int ((if i + 1 < length recs then timestamp_utc (recs ! (i + 1)) else window_end)
                     - timestamp_utc (recs ! i)) / 1000000 / 60
        else 0)"
    unfolding uptime_minutes_loop_sum time_diff_def next_time_def by (rule refl)
next
  have three: "{..<3::nat} = {0, 1, 2}" by auto
  show "uptime_minutes_loop
         [\<lparr> status_store_id = s0, timestamp_utc = t0, status = ''active'' \<rparr>,
          \<lparr> status_store_id = s1, timestamp_utc = t1, status = ''inactive'' \<rparr>,
          \<lparr> status_store_id = s2, timestamp_utc = t2, status = ''active'' \<rparr>] window_end =
       of_int (t1 - t0) / 60000000 + of_int (window_end - t2) / 60000000"
    by (simp add: uptime_minutes_loop_sum time_diff_def next_time_def three)
qed

section \<open>The business hours oracle, when every lookup succeeds\<close>

text \<open>
  Claim C4. When the zone of the store resolves (its own zone, or America/Chicago when it has
  none) and the schedule lookup succeeds, \<open>is_store_open\<close> works on the local wall-clock
  time \<open>local_time\<close> of the instant in that zone: without a schedule entry for the local
  weekday it answers true; for an entry whose strings parse to \<open>start \<le> end\<close> it answers true
  exactly when \<open>start \<le> local time \<le> end\<close>, both ends included; for an entry with
  \<open>start > end\<close> it answers true exactly when \<open>local time \<ge> start\<close> or \<open>local time \<le> end\<close>.
  So for the entry 22:00-06:00 the local times 23:00, 00:30 and 05:59 are open, and 12:00 and
  21:59 are closed.
\<close>

theorem is_store_open_schedule:
  assumes "query_first (store_timezone d) (\<lambda>r. tz_store_id r = sid) = Inr timezone_record"
    and "tz (case timezone_record of Some r \<Rightarrow> timezone_str r | None \<Rightarrow> ''America/Chicago'')
           = Some local_tz"
    and "hours_record_for d sid (weekday (date_of (ts + local_tz ts))) = Inr entry"
    and "local_time = ts + local_tz ts"
  shows "(entry = None \<longrightarrow> is_store_open tz d sid ts)
       \<and> (\<forall>h s e. entry = Some h \<and> strptime_HM (start_time_local h) = Inr s
                  \<and> strptime_HM (end_time_local h) = Inr e \<longrightarrow>
            (time_le s e \<longrightarrow>
               (is_store_open tz d sid ts \<longleftrightarrow>
                  time_le s (time_of local_time) \<and> time_le (time_of local_time) e))
          \<and> (time_gt s e \<longrightarrow>
               (is_store_open tz d sid ts \<longleftrightarrow>
                  time_le s (time_of local_time) \<or> time_le (time_of local_time) e)))
       \<and> (\<forall>h. entry = Some h \<and> start_time_local h = ''22:00'' \<and> end_time_local h = ''06:00'' \<longrightarrow>
            (time_of local_time \<in> {time_hm 23 0, time_hm 0 30, time_hm 5 59} \<longrightarrow>
               is_store_open tz d sid ts)
          \<and> (time_of local_time \<in> {time_hm 12 0, time_hm 21 59} \<longrightarrow>
               \<not> is_store_open tz d sid ts))"
proof -
  note r = is_store_open_try_resolved[where tz = tz and timezone_record = timezone_record
      and local_tz = local_tz and ts = ts, OF assms(1-3), folded assms(4)]
  have a: "entry = None \<longrightarrow> is_store_open tz d sid ts"
    by (simp add: is_store_open_def r)
  have b: "\<forall>h s e. entry = Some h \<and> strptime_HM (start_time_local h) = Inr s
                  \<and> strptime_HM (end_time_local h) = Inr e \<longrightarrow>
            (time_le s e \<longrightarrow>
               (is_store_open tz d sid ts \<longleftrightarrow>
                  time_le s (time_of local_time) \<and> time_le (time_of local_time) e))
          \<and> (time_gt s e \<longrightarrow>
               (is_store_open tz d sid ts \<longleftrightarrow>
                  time_le s (time_of local_time) \<or> time_le (time_of local_time) e))"
    by (auto simp: is_store_open_def r time_le_iff_not_gt)
  have c: "\<forall>h. entry = Some h \<and> start_time_local h = ''22:00'' \<and> end_time_local h = ''06:00'' \<longrightarrow>
            (time_of local_time \<in> {time_hm 23 0, time_hm 0 30, time_hm 5 59} \<longrightarrow>
               is_store_open tz d sid ts)
          \<and> (time_of local_time \<in> {time_hm 12 0, time_hm 21 59} \<longrightarrow>
               \<not> is_store_open tz d sid ts)"
    by (auto simp: is_store_open_def r strptime_2200 strptime_0600 time_hm_def time_gt_def
        time_le_def time_tuple_def)
  from a b c show ?thesis by blast
qed

text \<open>
  Store N is six hours behind UTC: its Monday 23:00, 00:30, 05:59, 12:00 and 21:59 are the
  UTC instants Tuesday 05:00, Monday 06:30, 11:59 and 18:00, and Tuesday 03:59.
\<close>

theorem is_store_open_schedule_witness:
  "is_store_open example_tzdb overnight_db ''N'' (at_hm (monday + 1) 5 0)
   \<and> is_store_open example_tzdb overnight_db ''N'' (at_hm monday 6 30)
   \<and> is_store_open example_tzdb overnight_db ''N'' (at_hm monday 11 59)
   \<and> \<not> is_store_open example_tzdb overnight_db ''N'' (at_hm monday 18 0)
   \<and> \<not> is_store_open example_tzdb overnight_db ''N'' (at_hm (monday + 1) 3 59)"
proof -
  let ?zone = "Some \<lparr> tz_store_id = ''N'', timezone_str = ''America/Chicago'' \<rparr>"
  let ?off = "\<lambda>t::int. - 6 * 60 * MICROS_PER_MINUTE"
  let ?entry = "Some \<lparr> hours_store_id = ''N'', day_of_week = 0,
                   start_time_local = ''22:00'', end_time_local = ''06:00'' \<rparr>"
  have z: "example_tzdb (case ?zone of Some r \<Rightarrow> timezone_str r | None \<Rightarrow> ''America/Chicago'')
            = Some ?off"
    by (simp add: example_tzdb_def)
  have e: "hours_record_for overnight_db ''N'' (weekday (date_of (at_hm monday h m + ?off (at_hm monday h m))))
           = Inr ?entry"
    if "0 \<le> (h - 6) * 60 + m" "(h - 6) * 60 + m < 1440" for h m
    using that by (simp add: chicago_local date_of_at_hm overnight_entry weekday_monday)
  have t: "time_of (at_hm monday h m - 360 * MICROS_PER_MINUTE) = time_hm (h - 6) m"
    if "6 \<le> h" "h < 30" "0 \<le> m" "m < 60" for h m
    using that by (simp add: chicago_local time_of_at_hm time_hm_def)
  note inst = is_store_open_schedule[where d = overnight_db and sid = "''N''" and tz = example_tzdb
      and timezone_record = ?zone and local_tz = ?off and entry = ?entry, OF overnight_lookup z _ refl]
  show ?thesis
    using inst[of "at_hm monday 29 0", OF e] inst[of "at_hm monday 6 30", OF e]
      inst[of "at_hm monday 11 59", OF e] inst[of "at_hm monday 18 0", OF e]
      inst[of "at_hm monday 27 59", OF e]
    by (simp add: t at_hm_carry)
qed

section \<open>Downtime\<close>

text \<open>
  Claim C5, as the code has it. For a window in which the store has a sample within business
  hours and for which the date loop returns the business minutes, the downtime in minutes is
  exactly the business minutes of the window minus the uptime estimate in minutes, where a
  result of the hour window is in minutes and one of any other window in hours. Nothing
  clamps the difference and no sample is read for it beyond the uptime estimate: a store open
  from 09:00 to 09:30 and polled active at 09:20, seen at 10:10, has a negative downtime for
  the hour window. For a window without a sample within business hours the code returns
  \<open>(0, 0)\<close> before it computes the business minutes, whatever they are.
\<close>

theorem downtime_is_business_minus_uptime:
  assumes "status_records d sid = Inr recs"
    and "period_delta time_period = Some delta"
  shows "(period_records (business_hours_records tz d sid recs) (now - delta) \<noteq> []
          \<and> total_business_minutes_loop d sid (date_of (now - delta)) (date_of now) 0
              = Inr business_minutes \<longrightarrow>
            fst (calculate_uptime_downtime tz d (Some now) sid time_period)
                * minutes_per_unit time_period
              = uptime_minutes_loop
                  (period_records (business_hours_records tz d sid recs) (now - delta)) now
          \<and> snd (calculate_uptime_downtime tz d (Some now) sid time_period)
                * minutes_per_unit time_period
              = of_int business_minutes
                - fst (calculate_uptime_downtime tz d (Some now) sid time_period)
                    * minutes_per_unit time_period)
       \<and> (period_records (business_hours_records tz d sid recs) (now - delta) = [] \<longrightarrow>
            calculate_uptime_downtime tz d (Some now) sid time_period = (0, 0))
       \<and> snd (calculate_uptime_downtime example_tzdb overrun_db (Some (at_hm monday 10 10)) ''S'' ''hour'')
           < 0"
proof (intro conjI impI)
  assume a: "period_records (business_hours_records tz d sid recs) (now - delta) \<noteq> []
          \<and> total_business_minutes_loop d sid (date_of (now - delta)) (date_of now) 0
              = Inr business_minutes"
  note r = calculate_Inr[OF calculate_try_result[OF assms conjunct1[OF a] conjunct2[OF a]]]
  show "fst (calculate_uptime_downtime tz d (Some now) sid time_period)
                * minutes_per_unit time_period
              = uptime_minutes_loop
                  (period_records (business_hours_records tz d sid recs) (now - delta)) now"
    using r by (simp add: Let_def minutes_per_unit_def)
  show "snd (calculate_uptime_downtime tz d (Some now) sid time_period)
                * minutes_per_unit time_period
              = of_int business_minutes
                - fst (calculate_uptime_downtime tz d (Some now) sid time_period)
                    * minutes_per_unit time_period"
    using r by (simp add: Let_def minutes_per_unit_def)
next
  assume "period_records (business_hours_records tz d sid recs) (now - delta) = []"
  from calculate_Inr[OF calculate_try_window_empty[OF assms(1) this assms(2)]]
  show "calculate_uptime_downtime tz d (Some now) sid time_period = (0, 0)" .
next
  show "snd (calculate_uptime_downtime example_tzdb overrun_db (Some (at_hm monday 10 10)) ''S'' ''hour'')
           < 0"
    by (simp add: overrun_hour)
qed

text \<open>
  The store seen at 10:10 has 50 minutes of uptime against 30 business minutes; the scenario
  without the 16:00 poll has no sample in its last hour.
\<close>

theorem downtime_is_business_minus_uptime_witness:
  "fst (calculate_uptime_downtime example_tzdb overrun_db (Some (at_hm monday 10 10)) ''S'' ''hour'') = 50
   \<and> snd (calculate_uptime_downtime example_tzdb overrun_db (Some (at_hm monday 10 10)) ''S'' ''hour'')
       = 30 - 50
   \<and> calculate_uptime_downtime example_tzdb morning_db (Some (at_hm monday 17 0)) ''S'' ''hour''
       = (0, 0)"
  using downtime_is_business_minus_uptime[OF overrun_status_records period_delta_hour,
      of example_tzdb "at_hm monday 10 10" 30]
    downtime_is_business_minus_uptime[OF morning_status_records period_delta_hour,
      of example_tzdb "at_hm monday 17 0"]
  by (simp add: overrun_period_records overrun_minutes_hour overrun_uptime minutes_per_unit_def
      morning_period_records)

text \<open>
  Claim C5 as the specification words it holds for every window. In the last hour of the
  scenario without the 16:00 poll the business minutes are 480 and the uptime estimate is 0,
  and the downtime returned is 0, not 480.
\<close>

theorem downtime_every_window_counterexample:
  "total_business_minutes_loop morning_db ''S''
       (date_of (at_hm monday 17 0 - 60 * MICROS_PER_MINUTE)) (date_of (at_hm monday 17 0)) 0
     = Inr 480
   \<and> uptime_minutes_loop
       (period_records (business_hours_records example_tzdb morning_db ''S''
          [\<lparr> status_store_id = ''S'', timestamp_utc = at_hm monday 9 0, status = ''active'' \<rparr>,
           \<lparr> status_store_id = ''S'', timestamp_utc = at_hm monday 12 0, status = ''active'' \<rparr>])
          (at_hm monday 17 0 - 60 * MICROS_PER_MINUTE))
       (at_hm monday 17 0) = 0
   \<and> calculate_uptime_downtime example_tzdb morning_db (Some (at_hm monday 17 0)) ''S'' ''hour''
       = (0, 0)
   \<and> snd (calculate_uptime_downtime example_tzdb morning_db (Some (at_hm monday 17 0)) ''S'' ''hour'')
       \<noteq> 480 - 0"
  by (simp add: morning_minutes_hour morning_period_records uptime_minutes_loop_Nil morning_hour)

section \<open>The business hours oracle, when a lookup fails\<close>

text \<open>
  Claim C6. Whatever exception the body of \<open>is_store_open\<close> raises, \<open>is_store_open\<close>
  answers true and hands no exception to its caller. In particular a zone name unknown to
  the time zone database raises UnknownTimeZoneError there, and a schedule entry for the
  local weekday whose start or end string is not of the form \<^verbatim>\<open>%H:%M\<close> raises ValueError
  there; in both cases the answer is true.
\<close>

theorem is_store_open_fail_open:
  "(is_store_open_try tz d sid ts = Inl exc \<longrightarrow> is_store_open tz d sid ts)
   \<and> (query_first (store_timezone d) (\<lambda>r. tz_store_id r = sid) = Inr timezone_record
        \<and> tz (case timezone_record of Some r \<Rightarrow> timezone_str r | None \<Rightarrow> ''America/Chicago'') = None
      \<longrightarrow> is_store_open_try tz d sid ts = Inl UnknownTimeZoneError \<and> is_store_open tz d sid ts)
   \<and> (query_first (store_timezone d) (\<lambda>r. tz_store_id r = sid) = Inr timezone_record
        \<and> tz (case timezone_record of Some r \<Rightarrow> timezone_str r | None \<Rightarrow> ''America/Chicago'')
            = Some local_tz
        \<and> hours_record_for d sid (weekday (date_of (ts + local_tz ts))) = Inr (Some h)
        \<and> (strptime_HM (start_time_local h) = Inl ValueError
            \<or> strptime_HM (end_time_local h) = Inl ValueError)
      \<longrightarrow> is_store_open_try tz d sid ts = Inl ValueError \<and> is_store_open tz d sid ts)"
proof (intro conjI impI)
  assume "is_store_open_try tz d sid ts = Inl exc"
  then show "is_store_open tz d sid ts" by (rule is_store_open_Inl)
next
  assume a: "query_first (store_timezone d) (\<lambda>r. tz_store_id r = sid) = Inr timezone_record
        \<and> tz (case timezone_record of Some r \<Rightarrow> timezone_str r | None \<Rightarrow> ''America/Chicago'') = None"
  then show t: "is_store_open_try tz d sid ts = Inl UnknownTimeZoneError"
    unfolding is_store_open_try_def Let_def by simp
  then show "is_store_open tz d sid ts" by (rule is_store_open_Inl)
next
  assume a: "query_first (store_timezone d) (\<lambda>r. tz_store_id r = sid) = Inr timezone_record
        \<and> tz (case timezone_record of Some r \<Rightarrow> timezone_str r | None \<Rightarrow> ''America/Chicago'')
            = Some local_tz
        \<and> hours_record_for d sid (weekday (date_of (ts + local_tz ts))) = Inr (Some h)
        \<and> (strptime_HM (start_time_local h) = Inl ValueError
            \<or> strptime_HM (end_time_local h) = Inl ValueError)"
  then have r: "is_store_open_try tz d sid ts =
      (case strptime_HM (start_time_local h) of
             Inl e \<Rightarrow> Inl e
           | Inr s \<Rightarrow>
               (case strptime_HM (end_time_local h) of
                  Inl e \<Rightarrow> Inl e
                | Inr e \<Rightarrow>
                    if time_gt s e
                    then Inr (time_le s (time_of (ts + local_tz ts)) \<or> time_le (time_of (ts + local_tz ts)) e)
                    else Inr (time_le s (time_of (ts + local_tz ts)) \<and> time_le (time_of (ts + local_tz ts)) e)))"
    using is_store_open_try_resolved[where tz = tz and timezone_record = timezone_record
      and local_tz = local_tz and ts = ts and d = d and sid = sid and entry = "Some h"]
    by simp
  have v: "strptime_HM s = Inl e \<Longrightarrow> e = ValueError" for s e
    by (cases e) (auto simp: strptime_HM_def split: option.splits list.splits if_splits prod.splits)
  from a show t: "is_store_open_try tz d sid ts = Inl ValueError"
    unfolding r by (auto split: sum.splits dest: v)
  then show "is_store_open tz d sid ts" by (rule is_store_open_Inl)
qed

text \<open>
  At 03:00 on a Monday, outside the hours 09:00-17:00, the store with the unknown zone and the
  store whose schedule is written \<^verbatim>\<open>09:00:00\<close> are both open.
\<close>

theorem is_store_open_fail_open_witness:
  "is_store_open_try example_tzdb unknown_zone_db ''S'' (at_hm monday 3 0) = Inl UnknownTimeZoneError
   \<and> is_store_open example_tzdb unknown_zone_db ''S'' (at_hm monday 3 0)
   \<and> is_store_open_try example_tzdb malformed_db ''S'' (at_hm monday 3 0) = Inl ValueError
   \<and> is_store_open example_tzdb malformed_db ''S'' (at_hm monday 3 0)"
proof -
  have d: "date_of (at_hm monday 3 0 + 0) = monday" by (simp add: date_of_at_hm)
  show ?thesis
    using is_store_open_fail_open[of example_tzdb unknown_zone_db "''S''" "at_hm monday 3 0"
        UnknownTimeZoneError "Some \<lparr> tz_store_id = ''S'', timezone_str = ''Mars/Olympus'' \<rparr>"]
      is_store_open_fail_open[of example_tzdb malformed_db "''S''" "at_hm monday 3 0"
        ValueError "Some \<lparr> tz_store_id = ''S'', timezone_str = ''UTC'' \<rparr>" "\<lambda>t. 0"
        "\<lparr> hours_store_id = ''S'', day_of_week = 0,
              start_time_local = ''09:00:00'', end_time_local = ''17:00:00'' \<rparr>"]
    by (simp add: query_first_def hours_record_for_def unknown_zone_db_def malformed_db_def
        scenario_db_def example_tzdb_def strptime_seconds date_of_at_hm weekday_monday)
qed

section \<open>Provider failures\<close>

text \<open>
  Claim C7, as the code has it. The report fails, with no rows, when the sample provider is
  unavailable as \<open>generate_report\<close> lists the store ids. With the sample provider available
  the report completes with one row for each distinct store id of the status table, whatever
  the state of the other providers: a failure of the schedule provider is caught inside the
  per-store computation, where \<open>is_store_open\<close> answers true and every window comes out as
  \<open>(0, 0)\<close>; a failure of the time zone provider is caught inside \<open>is_store_open\<close>, which
  answers true.
\<close>

theorem provider_failure_outcomes:
  "(store_status d = None \<longrightarrow> generate_report tz d M = Failed)
   \<and> (store_status d = Some rows \<longrightarrow>
        (\<exists>report_data. generate_report tz d M = Complete report_data
            \<and> map store_id report_data = remdups (map status_store_id rows)))
   \<and> (store_hours d = None \<longrightarrow>
        calculate_uptime_downtime tz d M sid time_period = (0, 0) \<and> is_store_open tz d sid ts)
   \<and> (store_timezone d = None \<longrightarrow> is_store_open tz d sid ts)"
proof (intro conjI impI)
  show "generate_report tz d M = Failed" if "store_status d = None"
    using that by (simp add: generate_report_def)
  show "\<exists>report_data. generate_report tz d M = Complete report_data
            \<and> map store_id report_data = remdups (map status_store_id rows)"
    if "store_status d = Some rows"
    using that by (simp add: generate_report_def report_data_row_def split_beta o_def)
  show "calculate_uptime_downtime tz d M sid time_period = (0, 0)" if "store_hours d = None"
    using that by (rule calculate_schedule_down)
  show "is_store_open tz d sid ts" if "store_hours d = None"
    using that by (rule is_store_open_schedule_down)
  show "is_store_open tz d sid ts" if "store_timezone d = None"
    using that by (rule is_store_open_zone_down)
qed

theorem provider_failure_outcomes_witness:
  "generate_report example_tzdb status_down_db (Some (at_hm monday 17 0)) = Failed
   \<and> (\<exists>report_data.
         generate_report example_tzdb schedule_down_db (Some (at_hm monday 17 0)) = Complete report_data
         \<and> map store_id report_data = [''S''])
   \<and> calculate_uptime_downtime example_tzdb schedule_down_db (Some (at_hm monday 17 0)) ''S'' ''day''
       = (0, 0)
   \<and> is_store_open example_tzdb schedule_down_db ''S'' (at_hm monday 20 0)
   \<and> is_store_open example_tzdb zone_down_db ''S'' (at_hm monday 20 0)"
  using provider_failure_outcomes[of status_down_db example_tzdb "Some (at_hm monday 17 0)"]
    provider_failure_outcomes[of schedule_down_db example_tzdb "Some (at_hm monday 17 0)"
      "the (store_status (scenario_db monday))" "''S''" "''day''" "at_hm monday 20 0"]
    provider_failure_outcomes[of zone_down_db example_tzdb "Some (at_hm monday 17 0)" _ "''S''" _
      "at_hm monday 20 0"]
  by (simp add: status_down_db_def schedule_down_db_def zone_down_db_def scenario_db_def)

text \<open>
  Claim C7 as the specification words it makes every provider failure fatal to the report.
  With the schedule provider unavailable the report of the scenario is not failed: it is
  complete, with an all-zero row for store S.
\<close>

theorem schedule_failure_counterexample:
  "store_hours schedule_down_db = None
   \<and> generate_report example_tzdb schedule_down_db (Some (at_hm monday 17 0)) =
       Complete [\<lparr> store_id = ''S'',
                   uptime_last_hour = 0, uptime_last_day = 0, uptime_last_week = 0,
                   downtime_last_hour = 0, downtime_last_day = 0, downtime_last_week = 0 \<rparr>]"
proof -
  have h: "store_hours schedule_down_db = None" by (simp add: schedule_down_db_def)
  have s: "store_status schedule_down_db = store_status (scenario_db monday)"
    by (simp add: schedule_down_db_def)
  show ?thesis
    by (simp add: h generate_report_def s scenario_db_def report_data_row_schedule_down[OF h])
qed

section \<open>Units and rounding\<close>

text \<open>
  Claim C8. Whenever the computation of a window reaches its end, the result of the hour
  window is the pair of the uptime and the downtime in minutes, unconverted, and the result of
  the day and the week window is that pair with each value divided by 60. Each of the six
  numeric fields of a store's row is \<open>round2\<close> of its own value, and \<open>round2\<close> yields a whole
  number of hundredths at most half a hundredth away from its argument. Python's floats are
  modelled by exact rationals.
\<close>

theorem unit_conversion_and_rounding:
  assumes "status_records d sid = Inr recs"
    and "period_delta time_period = Some delta"
    and "period_records (business_hours_records tz d sid recs) (now - delta) \<noteq> []"
    and "total_business_minutes_loop d sid (date_of (now - delta)) (date_of now) 0 = Inr business_minutes"
  shows "calculate_uptime_downtime tz d (Some now) sid time_period =
          (let uptime_minutes = uptime_minutes_loop
                  (period_records (business_hours_records tz d sid recs) (now - delta)) now;
               downtime_minutes = of_int business_minutes - uptime_minutes
           in if time_period = ''hour'' then (uptime_minutes, downtime_minutes)
              else (uptime_minutes / 60, downtime_minutes / 60))
       \<and> time_period \<in> {''hour'', ''day'', ''week''}
       \<and> report_data_row tz d M sid =
           \<lparr> store_id = sid,
             uptime_last_hour = round2 (fst (calculate_uptime_downtime tz d M sid ''hour'')),
             uptime_last_day = round2 (fst (calculate_uptime_downtime tz d M sid ''day'')),
             uptime_last_week = round2 (fst (calculate_uptime_downtime tz d M sid ''week'')),
             downtime_last_hour = round2 (snd (calculate_uptime_downtime tz d M sid ''hour'')),
             downtime_last_day = round2 (snd (calculate_uptime_downtime tz d M sid ''day'')),
             downtime_last_week = round2 (snd (calculate_uptime_downtime tz d M sid ''week'')) \<rparr>
       \<and> (\<exists>n::int. round2 x = of_int n / 100)
       \<and> \<bar>round2 x - x\<bar> \<le> 1 / 200"
proof -
  have p: "time_period \<in> {''hour'', ''day'', ''week''}"
    using assms(2) by (auto simp: period_delta_def split: if_splits)
  show ?thesis
    using calculate_Inr[OF calculate_try_result[OF assms]] p report_data_row_fields[of tz d M sid]
      round2_hundredths[of x] round2_close[of x]
    by (simp add: Let_def)
qed

text \<open>
  The store open from 09:00 to 09:30 and polled active at 09:20, seen at 10:10: 50 minutes of
  uptime in each window.
\<close>

theorem unit_conversion_and_rounding_witness:
  "calculate_uptime_downtime example_tzdb overrun_db (Some (at_hm monday 10 10)) ''S'' ''day''
     = (50 / 60, (1470 - 50) / 60)
   \<and> report_data_row example_tzdb overrun_db (Some (at_hm monday 10 10)) ''S'' =
       \<lparr> store_id = ''S'',
         uptime_last_hour = 50, uptime_last_day = 83 / 100, uptime_last_week = 83 / 100,
         downtime_last_hour = - 20, downtime_last_day = 2367 / 100,
         downtime_last_week = 14417 / 100 \<rparr>"
proof -
  have ne: "period_records (business_hours_records example_tzdb overrun_db ''S''
       [\<lparr> status_store_id = ''S'', timestamp_utc = at_hm monday 9 20, status = ''active'' \<rparr>])
     (at_hm monday 10 10 - MICROS_PER_DAY) \<noteq> []"
    by (simp add: overrun_period_records_day)
  from unit_conversion_and_rounding[OF overrun_status_records period_delta_day ne
      overrun_minutes_day, of "Some (at_hm monday 10 10)"]
  have day: "calculate_uptime_downtime example_tzdb overrun_db (Some (at_hm monday 10 10)) ''S'' ''day''
     = (50 / 60, (1470 - 50) / 60)"
    and row: "report_data_row example_tzdb overrun_db (Some (at_hm monday 10 10)) ''S'' =
           \<lparr> store_id = ''S'',
             uptime_last_hour = round2 (fst (calculate_uptime_downtime example_tzdb overrun_db (Some (at_hm monday 10 10)) ''S'' ''hour'')),
             uptime_last_day = round2 (fst (calculate_uptime_downtime example_tzdb overrun_db (Some (at_hm monday 10 10)) ''S'' ''day'')),
             uptime_last_week = round2 (fst (calculate_uptime_downtime example_tzdb overrun_db (Some (at_hm monday 10 10)) ''S'' ''week'')),
             downtime_last_hour = round2 (snd (calculate_uptime_downtime example_tzdb overrun_db (Some (at_hm monday 10 10)) ''S'' ''hour'')),
             downtime_last_day = round2 (snd (calculate_uptime_downtime example_tzdb overrun_db (Some (at_hm monday 10 10)) ''S'' ''day'')),
             downtime_last_week = round2 (snd (calculate_uptime_downtime example_tzdb overrun_db (Some (at_hm monday 10 10)) ''S'' ''week'')) \<rparr>"
    by (simp_all add: overrun_period_records_day overrun_uptime Let_def)
  show ?thesis
    unfolding row unfolding day overrun_hour overrun_week
    by (simp add: round2_values)
qed

section \<open>Empty data\<close>

text \<open>
  Claim C9, as the code has it. For a store without any status sample every window returns
  \<open>(0, 0)\<close>, and a report that completes has no row for that store: \<open>generate_report\<close>
  builds rows for the store ids of the status table only. For a store whose samples are all
  outside business hours, or all outside the window from \<open>now - delta\<close> to \<open>now\<close> (no sample
  being later than the reference instant), the window returns \<open>(0, 0)\<close>. In each case the
  value is returned by the body of \<open>calculate_uptime_downtime\<close> itself, not by its exception
  handler.
\<close>

theorem empty_data_gives_zero:
  "(status_records d sid = Inr [] \<longrightarrow>
      calculate_uptime_downtime_try tz d M sid time_period = Inr (0, 0)
      \<and> calculate_uptime_downtime tz d M sid time_period = (0, 0)
      \<and> (\<forall>report_data. generate_report tz d M = Complete report_data \<longrightarrow>
            sid \<notin> store_id ` set report_data))
   \<and> (status_records d sid = Inr recs \<and> business_hours_records tz d sid recs = [] \<longrightarrow>
        calculate_uptime_downtime_try tz d M sid time_period = Inr (0, 0)
        \<and> calculate_uptime_downtime tz d M sid time_period = (0, 0))
   \<and> (status_records d sid = Inr recs \<and> period_delta time_period = Some delta
        \<and> (\<forall>r\<in>set recs. timestamp_utc r \<le> now)
        \<and> (\<forall>r\<in>set recs. \<not> (now - delta \<le> timestamp_utc r \<and> timestamp_utc r \<le> now)) \<longrightarrow>
        calculate_uptime_downtime_try tz d (Some now) sid time_period = Inr (0, 0)
        \<and> calculate_uptime_downtime tz d (Some now) sid time_period = (0, 0))"
proof (intro conjI impI allI)
  assume a: "status_records d sid = Inr []"
  show t: "calculate_uptime_downtime_try tz d M sid time_period = Inr (0, 0)"
    using a by (rule calculate_try_no_samples)
  then show "calculate_uptime_downtime tz d M sid time_period = (0, 0)" by (rule calculate_Inr)
  show "sid \<notin> store_id ` set report_data"
    if "generate_report tz d M = Complete report_data" for report_data
    using a that by (rule no_samples_no_row)
next
  assume a: "status_records d sid = Inr recs \<and> business_hours_records tz d sid recs = []"
  then show t: "calculate_uptime_downtime_try tz d M sid time_period = Inr (0, 0)"
    by (simp add: calculate_try_none_open)
  then show "calculate_uptime_downtime tz d M sid time_period = (0, 0)" by (rule calculate_Inr)
next
  assume a: "status_records d sid = Inr recs \<and> period_delta time_period = Some delta
        \<and> (\<forall>r\<in>set recs. timestamp_utc r \<le> now)
        \<and> (\<forall>r\<in>set recs. \<not> (now - delta \<le> timestamp_utc r \<and> timestamp_utc r \<le> now))"
  then have "\<forall>r\<in>set recs. \<not> now - delta \<le> timestamp_utc r" by blast
  with a show t: "calculate_uptime_downtime_try tz d (Some now) sid time_period = Inr (0, 0)"
    by (simp add: calculate_try_none_in_window)
  then show "calculate_uptime_downtime tz d (Some now) sid time_period = (0, 0)"
    by (rule calculate_Inr)
qed

text \<open>
  Store Q, which has a schedule and no sample, beside store S; the store polled only after
  closing time; and the scenario seen a week later, at 17:00 of the next Monday, when its
  samples are older than the week window.
\<close>

theorem empty_data_gives_zero_witness:
  "calculate_uptime_downtime example_tzdb quiet_db (Some (at_hm monday 17 0)) ''Q'' ''day'' = (0, 0)
   \<and> ''Q'' \<notin> store_id `
        set [\<lparr> store_id = ''S'',
                uptime_last_hour = 0, uptime_last_day = 7, uptime_last_week = 7,
                downtime_last_hour = 480, downtime_last_day = 25, downtime_last_week = 153 \<rparr>]
   \<and> calculate_uptime_downtime_try example_tzdb after_hours_db (Some (at_hm monday 20 0)) ''S'' ''hour''
       = Inr (0, 0)
   \<and> calculate_uptime_downtime_try example_tzdb (scenario_db monday) (Some (at_hm (monday + 7) 17 0))
        ''S'' ''week'' = Inr (0, 0)"
  using empty_data_gives_zero[of quiet_db "''Q''" example_tzdb "Some (at_hm monday 17 0)" "''day''"]
    empty_data_gives_zero[of after_hours_db "''S''" example_tzdb "Some (at_hm monday 20 0)" "''hour''"
      "[\<lparr> status_store_id = ''S'', timestamp_utc = at_hm monday 20 0, status = ''active'' \<rparr>]"]
    empty_data_gives_zero[of "scenario_db monday" "''S''" example_tzdb _ "''week''"
      "[\<lparr> status_store_id = ''S'', timestamp_utc = at_hm monday 9 0, status = ''active'' \<rparr>,
        \<lparr> status_store_id = ''S'', timestamp_utc = at_hm monday 12 0, status = ''active'' \<rparr>,
        \<lparr> status_store_id = ''S'', timestamp_utc = at_hm monday 16 0, status = ''inactive'' \<rparr>]"
      "7 * MICROS_PER_DAY" "at_hm (monday + 7) 17 0"]
  by (simp add: quiet_status_records quiet_report after_hours_status_records after_hours_closed
      scenario_status_records period_delta_week at_hm_minus_week at_hm_le)

text \<open>
  Claim C9 as the specification words it has a store without samples produce the all-zero
  row. Store Q has no sample, and the completed report holds the row of store S alone.
\<close>

theorem no_samples_counterexample:
  "status_records quiet_db ''Q'' = Inr []
   \<and> generate_report example_tzdb quiet_db (Some (at_hm monday 17 0)) =
       Complete [\<lparr> store_id = ''S'',
                   uptime_last_hour = 0, uptime_last_day = 7, uptime_last_week = 7,
                   downtime_last_hour = 480, downtime_last_day = 25, downtime_last_week = 153 \<rparr>]
   \<and> \<lparr> store_id = ''Q'',
         uptime_last_hour = 0, uptime_last_day = 0, uptime_last_week = 0,
         downtime_last_hour = 0, downtime_last_day = 0, downtime_last_week = 0 \<rparr>
       \<notin> set [\<lparr> store_id = ''S'',
                   uptime_last_hour = 0, uptime_last_day = 7, uptime_last_week = 7,
                   downtime_last_hour = 480, downtime_last_day = 25, downtime_last_week = 153 \<rparr>]"
  by (simp add: quiet_status_records quiet_report)

section \<open>The window filter\<close>

text \<open>
  Claim C10. The window filter keeps exactly the samples whose timestamp is at least the
  window start, with no check against the window end; when the reference instant is the
  greatest timestamp of the status table, the samples kept for a store and a period are
  those of the closed window from \<open>now - delta\<close> to \<open>now\<close>.
\<close>

theorem period_filter_closed_window:
  assumes "store_status d = Some rows" and "max_timestamp rows = Some now"
    and "status_records d sid = Inr recs" and "period_delta time_period = Some delta"
  shows "set (period_records xs start) = {r \<in> set xs. start \<le> timestamp_utc r}
       \<and> period_records (business_hours_records tz d sid recs) (now - delta) =
           filter (\<lambda>r. now - delta \<le> timestamp_utc r \<and> timestamp_utc r \<le> now)
             (business_hours_records tz d sid recs)"
proof
  show "set (period_records xs start) = {r \<in> set xs. start \<le> timestamp_utc r}"
    by (auto simp: period_records_def)
next
  have "\<forall>r\<in>set (business_hours_records tz d sid recs). timestamp_utc r \<le> now"
    using status_records_subset[OF assms(1,3)] max_timestamp_ge[OF assms(2)]
    by (auto simp: business_hours_records_def)
  then show "period_records (business_hours_records tz d sid recs) (now - delta) =
           filter (\<lambda>r. now - delta \<le> timestamp_utc r \<and> timestamp_utc r \<le> now)
             (business_hours_records tz d sid recs)"
    unfolding period_records_def by (intro filter_cong) auto
qed

text \<open>
  In the scenario the greatest timestamp is that of the 16:00 poll, and the hour window keeps
  that poll alone.
\<close>

theorem period_filter_closed_window_witness:
  "period_records
     (business_hours_records example_tzdb (scenario_db monday) ''S''
        [\<lparr> status_store_id = ''S'', timestamp_utc = at_hm monday 9 0, status = ''active'' \<rparr>,
         \<lparr> status_store_id = ''S'', timestamp_utc = at_hm monday 12 0, status = ''active'' \<rparr>,
         \<lparr> status_store_id = ''S'', timestamp_utc = at_hm monday 16 0, status = ''inactive'' \<rparr>])
     (at_hm monday 16 0 - 60 * MICROS_PER_MINUTE)
   = [\<lparr> status_store_id = ''S'', timestamp_utc = at_hm monday 16 0, status = ''inactive'' \<rparr>]"
proof -
  have rows: "store_status (scenario_db monday) = Some
        [\<lparr> status_store_id = ''S'', timestamp_utc = at_hm monday 9 0, status = ''active'' \<rparr>,
         \<lparr> status_store_id = ''S'', timestamp_utc = at_hm monday 12 0, status = ''active'' \<rparr>,
         \<lparr> status_store_id = ''S'', timestamp_utc = at_hm monday 16 0, status = ''inactive'' \<rparr>]"
    by (simp add: scenario_db_def)
  have mx: "max_timestamp
        [\<lparr> status_store_id = ''S'', timestamp_utc = at_hm monday 9 0, status = ''active'' \<rparr>,
         \<lparr> status_store_id = ''S'', timestamp_utc = at_hm monday 12 0, status = ''active'' \<rparr>,
         \<lparr> status_store_id = ''S'', timestamp_utc = at_hm monday 16 0, status = ''inactive'' \<rparr>]
      = Some (at_hm monday 16 0)"
    by (simp add: max_timestamp_def at_hm_le not_le[symmetric])
  from period_filter_closed_window[OF rows mx scenario_status_records period_delta_hour,
      of _ _ example_tzdb]
  show ?thesis
    by (simp add: scenario_business_hours_records[OF weekday_monday] at_hm_minus_hour at_hm_le)
qed

end
